theory Spec2Isabelle
  imports Complex_Main
begin

section \<open>The worker of \<^verbatim>\<open>packages/worker/src/index.ts\<close>\<close>

text \<open>
  The worker reads tasks from a Redis stream, runs each prompt through one agent session,
  pushes progress and result records to an output stream, and listens on a pub/sub channel
  for control signals. Calls into Redis and into the agent runtime are the effects of the
  program: the model records each call, in order, in a trace, and takes what the call
  returns (its value, or the error it throws or rejects with) from an environment record.
\<close>

subsection \<open>JavaScript values\<close>

text \<open>
  What \<^verbatim>\<open>JSON.parse\<close> can return. A value of type \<open>json option\<close> is a JavaScript value
  that may be \<^verbatim>\<open>undefined\<close> (\<open>None\<close>). An object holds its own properties, each key once.
\<close>

datatype json =
    JNull
  | JBool bool
  | JNum real
  | JStr string
  | JArr "json list"
  | JObj "(string \<times> json) list"

text \<open>
  A thrown value can be any value (\<^verbatim>\<open>catch (err: any)\<close>): \<^verbatim>\<open>undefined\<close>, \<^verbatim>\<open>null\<close>, a
  string, an object. An \<^verbatim>\<open>Error\<close> object is the object of its properties \<^verbatim>\<open>name\<close> and
  \<^verbatim>\<open>message\<close>.
\<close>

type_synonym thrown = "json option"

definition error_object :: "string \<Rightarrow> string \<Rightarrow> thrown" where
  "error_object n m = Some (JObj [(''name'', JStr n), (''message'', JStr m)])"

text \<open>Truthiness, as \<^verbatim>\<open>if (x)\<close>, \<^verbatim>\<open>!x\<close> and \<^verbatim>\<open>x && y\<close> test it.\<close>

fun truthy :: "json option \<Rightarrow> bool" where
  "truthy None = False"
| "truthy (Some JNull) = False"
| "truthy (Some (JBool b)) = b"
| "truthy (Some (JNum x)) = (x \<noteq> 0)"
| "truthy (Some (JStr s)) = (s \<noteq> [])"
| "truthy (Some (JArr xs)) = True"
| "truthy (Some (JObj fs)) = True"

text \<open>
  Property access \<^verbatim>\<open>v.k\<close> on a value that is not \<^verbatim>\<open>null\<close>, for the keys the worker
  reads (\<^verbatim>\<open>command\<close>, \<^verbatim>\<open>message\<close>, \<^verbatim>\<open>id\<close>, \<^verbatim>\<open>prompt\<close>): an object yields its own
  property, every other value \<^verbatim>\<open>undefined\<close>. On \<^verbatim>\<open>null\<close> the access throws a TypeError,
  which the callers below write out.
\<close>

fun get :: "json \<Rightarrow> string \<Rightarrow> json option" where
  "get (JObj fs) k = map_of fs k"
| "get v k = None"

definition TypeError :: thrown where
  "TypeError = error_object ''TypeError'' ''Cannot read properties of null''"

definition SyntaxError :: thrown where
  "SyntaxError = error_object ''SyntaxError'' ''Unexpected token''"

text \<open>
  \<^verbatim>\<open>err.message\<close> of a caught value: a TypeError on \<^verbatim>\<open>undefined\<close> and \<^verbatim>\<open>null\<close>, the
  property (or \<^verbatim>\<open>undefined\<close>) on every other value.
\<close>

definition read_message :: "thrown \<Rightarrow> thrown + json option" where
  "read_message err =
     (case err of
        None \<Rightarrow> Inl TypeError
      | Some v \<Rightarrow> if v = JNull then Inl TypeError else Inr (get v ''message''))"

text \<open>
  Conversion to a string, as a template literal \<^verbatim>\<open>`${v}`\<close> does it: whether it returns.
  A primitive value converts. An array converts by joining the conversions of its elements.
  An object converts with \<^verbatim>\<open>Object.prototype.toString\<close>, unless it has an own property
  \<^verbatim>\<open>toString\<close>: that property of a parsed value is never a function, the conversion falls
  back to \<^verbatim>\<open>valueOf\<close>, which does not give a primitive either, and throws a TypeError.
\<close>

fun stringifiable :: "json \<Rightarrow> bool" where
  "stringifiable (JArr xs) = (\<forall>x \<in> set xs. stringifiable x)"
| "stringifiable (JObj fs) = (map_of fs ''toString'' = None)"
| "stringifiable v = True"

definition template_ok :: "json option \<Rightarrow> bool" where
  "template_ok v = (case v of None \<Rightarrow> True | Some j \<Rightarrow> stringifiable j)"

definition ConvertError :: thrown where
  "ConvertError = error_object ''TypeError'' ''Cannot convert object to primitive value''"

text \<open>\<^verbatim>\<open>v || "d"\<close> with a string literal on the right.\<close>

definition or_else :: "json option \<Rightarrow> string \<Rightarrow> json option" where
  "or_else v d = (if truthy v then v else Some (JStr d))"

subsection \<open>Wire records\<close>

text \<open>
  The task object the reset branch builds, and the \<^verbatim>\<open>WorkerResponse\<close> objects written to the
  output stream (progress and result records). A field that is \<open>None\<close> is \<^verbatim>\<open>undefined\<close>,
  which \<^verbatim>\<open>JSON.stringify\<close> leaves out of the text.
\<close>

record WorkerTask =
  task_id :: "json option"
  source :: "string option"
  prompt :: "json option"

record WorkerResponse =
  resp_id :: "json option"
  status :: string
  event :: "string option"
  data :: "json option"
  response :: "string option"
  error :: "json option"

subsection \<open>Agent events\<close>

record block =
  block_type :: string
  block_text :: string

record agent_message =
  role :: string
  content :: "block list"

record agent_event =
  event_type :: string
  event_message :: agent_message
  toolName :: string
  args :: json
  result :: json
  isError :: bool

subsection \<open>Effects\<close>

text \<open>
  One constructor for each call of \<^verbatim>\<open>log\<close> and \<^verbatim>\<open>error\<close>, with the values it prints.
  The text printed is not modelled, only whether building it throws (below).
\<close>

datatype logline =
    InterruptStop "json option"
  | SteerReceived "json option" json
  | ResetReceived
  | ControlParseFailed string
  | NoPayloadFields string
  | ReceivedMessage string string
  | MessageParseFailed string
  | MissingPrompt json
  | ProcessingTask "json option" json
  | TaskCompleted "json option"
  | TaskAborted "json option"
  | TaskError "json option" thrown
  | ProgressPublishFailed thrown
  | WorkerLoopError thrown
  | PlainStop

type_synonym stream_message = "string \<times> string list"

type_synonym xread_reply = "(string \<times> stream_message list) list option"

text \<open>
  The calls the worker makes. A call that can fail carries what it returned:
  \<open>Inr ()\<close> when it returned or resolved, \<open>Inl e\<close> when it threw or rejected with \<open>e\<close>.
  \<open>XAddIn\<close> and \<open>XAddOut\<close> are \<^verbatim>\<open>xadd\<close> on the input and the output stream with the
  stringified object in the field \<^verbatim>\<open>payload\<close>; \<open>RPushIn\<close> and \<open>RPushOut\<close> are the \<^verbatim>\<open>rpush\<close>
  of the list-based variants; \<open>SetCurrentTaskId\<close> is the assignment to the variable
  \<^verbatim>\<open>currentTaskId\<close>.
\<close>

datatype action =
    Log logline
  | LogError logline
  | AgentAbort "thrown + unit"
  | SessionSteer json "thrown + unit"
  | SessionNewSession "thrown + unit"
  | SessionSubscribe "thrown + unit"
  | Unsubscribe "thrown + unit"
  | SessionPrompt json
  | XReadGroup
  | BLPop
  | XAddIn WorkerTask "thrown + unit"
  | XAddOut WorkerResponse "thrown + unit"
  | RPushIn WorkerTask "thrown + unit"
  | RPushOut WorkerResponse "thrown + unit"
  | XAck string "thrown + unit"
  | SetCurrentTaskId "json option"
  | Sleep nat

text \<open>
  A piece of code that runs to its end or throws, with the calls it made up to there.
\<close>

type_synonym 'a eff = "(thrown + 'a) \<times> action list"

definition done_eff :: "action list \<Rightarrow> unit eff" where
  "done_eff tr = (Inr (), tr)"

definition throw_eff :: "thrown \<Rightarrow> action list \<Rightarrow> 'a eff" where
  "throw_eff e tr = (Inl e, tr)"

text \<open>A call whose outcome the environment gives: recorded, then returned or thrown.\<close>

definition call :: "((thrown + unit) \<Rightarrow> action) \<Rightarrow> (thrown + unit) \<Rightarrow> unit eff" where
  "call a r = (r, [a r])"

text \<open>Sequencing: the second part runs only when the first did not throw.\<close>

definition seq :: "unit eff \<Rightarrow> unit eff \<Rightarrow> unit eff" where
  "seq m k = (case fst m of Inl e \<Rightarrow> (Inl e, snd m) | Inr u \<Rightarrow> (fst k, snd m @ snd k))"

text \<open>\<^verbatim>\<open>try { m } catch (err) { h err }\<close>\<close>

definition try_catch :: "unit eff \<Rightarrow> (thrown \<Rightarrow> unit eff) \<Rightarrow> unit eff" where
  "try_catch m h = (case fst m of Inl e \<Rightarrow> (fst (h e), snd m @ snd (h e)) | Inr u \<Rightarrow> m)"

text \<open>
  \<^verbatim>\<open>try { m } finally { f }\<close>: \<open>f\<close> runs on every exit of \<open>m\<close>; when \<open>f\<close> throws, its
  error replaces the outcome of \<open>m\<close>.
\<close>

definition try_finally :: "unit eff \<Rightarrow> unit eff \<Rightarrow> unit eff" where
  "try_finally m f = (case fst f of Inl e \<Rightarrow> (Inl e, snd m @ snd f) | Inr u \<Rightarrow> (fst m, snd m @ snd f))"

text \<open>
  A call of \<^verbatim>\<open>log\<close> or \<^verbatim>\<open>error\<close> whose text is a template literal over the values
  \<open>vs\<close>: the text is built first, so the call throws, and prints nothing, when one of
  the values does not convert to a string.
\<close>

definition log_template :: "json option list \<Rightarrow> logline \<Rightarrow> unit eff" where
  "log_template vs l =
     (if list_all template_ok vs then done_eff [Log l] else throw_eff ConvertError [])"

definition error_template :: "json option list \<Rightarrow> logline \<Rightarrow> unit eff" where
  "error_template vs l =
     (if list_all template_ok vs then done_eff [LogError l] else throw_eff ConvertError [])"

subsection \<open>The control-signal handler\<close>

text \<open>What the calls of the handler return.\<close>

record control_env =
  abort_r :: "thrown + unit"
  steer_r :: "thrown + unit"
  newSession_r :: "thrown + unit"
  enqueue_r :: "thrown + unit"

text \<open>
  The prompts of the greeting task, \<^verbatim>\<open>prompt: "..."\<close> in the reset branch: nine CJK
  characters in \<^verbatim>\<open>index.ts\<close>, seven in the list-based variant, here as UTF-8 bytes.
\<close>

definition greeting :: string where
  "greeting = map char_of [229, 144, 145, 231, 148, 168, 230, 136, 183, 229, 143, 145,
     229, 135, 186, 228, 189, 160, 231, 154, 132, 233, 151, 174, 229, 128, 153 :: nat]"

definition greeting_rpush :: string where
  "greeting_rpush = map char_of [229, 143, 145, 229, 135, 186, 228, 189, 160, 231, 154, 132,
     233, 151, 174, 229, 128, 153, 227, 128, 130 :: nat]"

text \<open>
  The body of the \<^verbatim>\<open>try\<close> of the handler registered with
  \<^verbatim>\<open>redisSubscriber.on("message", ...)\<close>. \<open>JSON_parse\<close> is the built-in \<^verbatim>\<open>JSON.parse\<close>,
  \<open>None\<close> where it throws a SyntaxError. \<open>currentTaskId\<close> is the value of that variable
  when the handler runs. The log lines of the stop and the steer branch print
  \<^verbatim>\<open>${currentTaskId || "none"}\<close>, and the one of the steer branch \<^verbatim>\<open>${signal.message}\<close>. The handler of \<^verbatim>\<open>index.ts\<close> and the one of the list-based
  variant differ in the call that enqueues the greeting task (\<open>enqueue\<close>: \<^verbatim>\<open>xadd\<close> or
  \<^verbatim>\<open>rpush\<close> on the input queue) and in its prompt (\<open>greet\<close>), and in nothing else.
\<close>

definition control_try ::
  "(WorkerTask \<Rightarrow> (thrown + unit) \<Rightarrow> action) \<Rightarrow> string \<Rightarrow>
   (string \<Rightarrow> json option) \<Rightarrow> control_env \<Rightarrow> json option \<Rightarrow> string \<Rightarrow> unit eff" where
  "control_try enqueue greet JSON_parse env currentTaskId rawSignal =
     (case JSON_parse rawSignal of
        None \<Rightarrow> throw_eff SyntaxError []
      | Some signal \<Rightarrow>
          if signal = JNull then throw_eff TypeError []
          else if get signal ''command'' = Some (JStr ''stop'') then
            seq (log_template [or_else currentTaskId ''none''] (InterruptStop currentTaskId))
                (call AgentAbort (abort_r env))
          else if get signal ''command'' = Some (JStr ''steer'') \<and> truthy (get signal ''message'') then
            (case get signal ''message'' of
               None \<Rightarrow> done_eff []
             | Some m \<Rightarrow>
                 seq (log_template [or_else currentTaskId ''none'', Some m]
                        (SteerReceived currentTaskId m))
                     (call (SessionSteer m) (steer_r env)))
          else if get signal ''command'' = Some (JStr ''reset'') then
            seq (done_eff [Log ResetReceived])
             (seq (call SessionNewSession (newSession_r env))
                  (call (enqueue \<lparr>task_id = get signal ''id'', source = Some ''internal'',
                                   prompt = Some (JStr greet)\<rparr>)
                        (enqueue_r env)))
          else done_eff [])"

text \<open>The handler of \<^verbatim>\<open>index.ts\<close>.\<close>

definition on_message ::
  "(string \<Rightarrow> json option) \<Rightarrow> control_env \<Rightarrow> json option \<Rightarrow> string \<Rightarrow> unit eff" where
  "on_message JSON_parse env currentTaskId rawSignal =
     try_catch (control_try XAddIn greeting JSON_parse env currentTaskId rawSignal)
       (\<lambda>e. done_eff [LogError (ControlParseFailed rawSignal)])"

text \<open>The handler of the list-based variant with the reset command.\<close>

definition on_message_rpush ::
  "(string \<Rightarrow> json option) \<Rightarrow> control_env \<Rightarrow> json option \<Rightarrow> string \<Rightarrow> unit eff" where
  "on_message_rpush JSON_parse env currentTaskId rawSignal =
     try_catch (control_try RPushIn greeting_rpush JSON_parse env currentTaskId rawSignal)
       (\<lambda>e. done_eff [LogError (ControlParseFailed rawSignal)])"

text \<open>
  The handler of the oldest variant: \<^verbatim>\<open>stop\<close> and \<^verbatim>\<open>steer\<close> only, and a \<^verbatim>\<open>catch\<close> that
  takes the bare text \<^verbatim>\<open>STOP\<close> as a stop signal.
\<close>

definition on_message_plain_try ::
  "(string \<Rightarrow> json option) \<Rightarrow> control_env \<Rightarrow> json option \<Rightarrow> string \<Rightarrow> unit eff" where
  "on_message_plain_try JSON_parse env currentTaskId rawSignal =
     (case JSON_parse rawSignal of
        None \<Rightarrow> throw_eff SyntaxError []
      | Some signal \<Rightarrow>
          if signal = JNull then throw_eff TypeError []
          else if get signal ''command'' = Some (JStr ''stop'') then
            seq (log_template [or_else currentTaskId ''none''] (InterruptStop currentTaskId))
                (call AgentAbort (abort_r env))
          else if get signal ''command'' = Some (JStr ''steer'') \<and> truthy (get signal ''message'') then
            (case get signal ''message'' of
               None \<Rightarrow> done_eff []
             | Some m \<Rightarrow>
                 seq (log_template [or_else currentTaskId ''none'', Some m]
                        (SteerReceived currentTaskId m))
                     (call (SessionSteer m) (steer_r env)))
          else done_eff [])"

definition on_message_plain ::
  "(string \<Rightarrow> json option) \<Rightarrow> control_env \<Rightarrow> json option \<Rightarrow> string \<Rightarrow> unit eff" where
  "on_message_plain JSON_parse env currentTaskId rawSignal =
     try_catch (on_message_plain_try JSON_parse env currentTaskId rawSignal)
       (\<lambda>e. if rawSignal = ''STOP''
             then seq (done_eff [Log PlainStop]) (call AgentAbort (abort_r env))
             else done_eff [])"

subsection \<open>The session subscriber\<close>

text \<open>
  The callback given to \<^verbatim>\<open>session.subscribe\<close>. Its first part appends to \<^verbatim>\<open>responseText\<close>,
  its second part builds the progress record of the event, its third part publishes it.
  \<open>tid\<close> is the \<^verbatim>\<open>id\<close> of the task.
\<close>

definition collect_text :: "string \<Rightarrow> agent_event \<Rightarrow> string" where
  "collect_text responseText ev =
     (if event_type ev = ''message_end'' \<and> role (event_message ev) = ''assistant''
      then foldl (\<lambda>acc b. if block_type b = ''text'' then acc @ block_text b else acc)
             responseText (content (event_message ev))
      else responseText)"

definition progress_record :: "json option \<Rightarrow> string \<Rightarrow> json option \<Rightarrow> WorkerResponse" where
  "progress_record tid ev d =
     \<lparr>resp_id = tid, status = ''progress'', event = Some ev, data = d,
      response = None, error = None\<rparr>"

definition progress_of :: "json option \<Rightarrow> agent_event \<Rightarrow> WorkerResponse option" where
  "progress_of tid ev =
     (if event_type ev = ''message_start'' then
        (if role (event_message ev) = ''assistant''
         then Some (progress_record tid ''llm_start'' None) else None)
      else if event_type ev = ''message_end'' then
        (if role (event_message ev) = ''assistant''
         then Some (progress_record tid ''llm_end'' None) else None)
      else if event_type ev = ''tool_execution_start'' then
        Some (progress_record tid ''tool_start''
               (Some (JObj [(''tool'', JStr (toolName ev)), (''args'', args ev)])))
      else if event_type ev = ''tool_execution_end'' then
        Some (progress_record tid ''tool_end''
               (Some (JObj [(''tool'', JStr (toolName ev)), (''result'', result ev),
                            (''isError'', JBool (isError ev))])))
      else None)"

text \<open>
  The publish is not awaited: a rejection only reaches the \<^verbatim>\<open>.catch\<close> that logs it.
  \<open>publish\<close> is \<^verbatim>\<open>xadd\<close> or \<^verbatim>\<open>rpush\<close> on the output queue.
\<close>

definition publish_progress ::
  "(WorkerResponse \<Rightarrow> (thrown + unit) \<Rightarrow> action) \<Rightarrow> WorkerResponse option \<Rightarrow> (thrown + unit)
   \<Rightarrow> action list" where
  "publish_progress publish progress r =
     (case progress of
        None \<Rightarrow> []
      | Some p \<Rightarrow>
          publish p r # (case r of Inl e \<Rightarrow> [LogError (ProgressPublishFailed e)] | Inr u \<Rightarrow> []))"

text \<open>
  One run of the callback: the event, and what the publish of its progress record (if it
  has one) returns. The result is the new \<^verbatim>\<open>responseText\<close> and the calls made.
\<close>

definition subscriber ::
  "(WorkerResponse \<Rightarrow> (thrown + unit) \<Rightarrow> action) \<Rightarrow> json option \<Rightarrow> string \<Rightarrow>
   agent_event \<times> (thrown + unit) \<Rightarrow> string \<times> action list" where
  "subscriber publish tid responseText e =
     (collect_text responseText (fst e),
      publish_progress publish (progress_of tid (fst e)) (snd e))"

text \<open>The events the session emits while \<^verbatim>\<open>session.prompt\<close> runs, in order.\<close>

fun emit_events ::
  "(WorkerResponse \<Rightarrow> (thrown + unit) \<Rightarrow> action) \<Rightarrow> json option \<Rightarrow> string \<Rightarrow>
   (agent_event \<times> (thrown + unit)) list \<Rightarrow> string \<times> action list" where
  "emit_events publish tid responseText [] = (responseText, [])"
| "emit_events publish tid responseText (e # es) =
     (let r = subscriber publish tid responseText e;
          rs = emit_events publish tid (fst r) es
      in (fst rs, snd r @ snd rs))"

subsection \<open>The life of one task\<close>

text \<open>What the calls made for one task return, and the events the session emits.\<close>

record task_env =
  subscribe_r :: "thrown + unit"
  events :: "(agent_event \<times> (thrown + unit)) list"
  prompt_r :: "thrown + unit"
  publish_result_r :: "thrown + unit"
  publish_error_r :: "thrown + unit"
  unsubscribe_r :: "thrown + unit"
  xack_r :: "thrown + unit"

definition resultPayload :: "json option \<Rightarrow> string \<Rightarrow> WorkerResponse" where
  "resultPayload tid responseText =
     \<lparr>resp_id = tid, status = ''success'', event = None, data = None,
      response = Some responseText, error = None\<rparr>"

text \<open>
  The error record of the \<^verbatim>\<open>catch\<close> block, from the value \<open>m\<close> of \<^verbatim>\<open>err.message\<close>.
\<close>

definition errorPayload :: "json option \<Rightarrow> json option \<Rightarrow> WorkerResponse" where
  "errorPayload tid m =
     \<lparr>resp_id = tid, status = ''error'', event = None, data = None, response = None,
      error = (if m = Some (JStr ''Aborted'') then Some (JStr ''Task aborted by user'') else m)\<rparr>"

text \<open>
  The log of the task and the subscription, before the \<^verbatim>\<open>try\<close>: the log prints
  \<^verbatim>\<open>${id || "d"}\<close> and \<^verbatim>\<open>${prompt}\<close>, where \<open>d\<close> is the empty text in \<^verbatim>\<open>index.ts\<close>.
\<close>

definition task_open :: "string \<Rightarrow> task_env \<Rightarrow> json option \<Rightarrow> json \<Rightarrow> unit eff" where
  "task_open d env tid prompt_text =
     seq (log_template [or_else tid d, Some prompt_text] (ProcessingTask tid prompt_text))
         (call SessionSubscribe (subscribe_r env))"

text \<open>The task reaches the \<^verbatim>\<open>try\<close> block, and with it \<^verbatim>\<open>session.prompt\<close>.\<close>

definition dispatched :: "task_env \<Rightarrow> json option \<Rightarrow> json \<Rightarrow> bool" where
  "dispatched env tid prompt_text = (fst (task_open [] env tid prompt_text) = Inr ())"

text \<open>
  The \<^verbatim>\<open>try\<close> block: the prompt, then the success record. \<open>shown\<close> is what the log
  lines of the block print of the task id: \<^verbatim>\<open>${id}\<close> in \<^verbatim>\<open>index.ts\<close>,
  \<^verbatim>\<open>${id || "unknown"}\<close> in the list-based variant.
\<close>

definition task_try ::
  "(json option \<Rightarrow> json option) \<Rightarrow> (WorkerResponse \<Rightarrow> (thrown + unit) \<Rightarrow> action) \<Rightarrow>
   task_env \<Rightarrow> json option \<Rightarrow> json \<Rightarrow> unit eff" where
  "task_try shown publish env tid prompt_text =
     (let ran = emit_events publish tid [] (events env) in
      seq (done_eff (SessionPrompt prompt_text # snd ran))
       (seq (prompt_r env, [])
        (seq (log_template [shown tid] (TaskCompleted tid))
             (call (publish (resultPayload tid (fst ran))) (publish_result_r env)))))"

text \<open>
  The \<^verbatim>\<open>catch\<close> block: it reads \<^verbatim>\<open>err.message\<close>, logs, and writes the error record.
\<close>

definition task_catch ::
  "(json option \<Rightarrow> json option) \<Rightarrow> (WorkerResponse \<Rightarrow> (thrown + unit) \<Rightarrow> action) \<Rightarrow>
   task_env \<Rightarrow> json option \<Rightarrow> thrown \<Rightarrow> unit eff" where
  "task_catch shown publish env tid err =
     (case read_message err of
        Inl t \<Rightarrow> throw_eff t []
      | Inr m \<Rightarrow>
          seq (if m = Some (JStr ''Aborted'') then log_template [shown tid] (TaskAborted tid)
               else error_template [shown tid] (TaskError tid err))
              (call (publish (errorPayload tid m)) (publish_error_r env)))"

text \<open>
  \<^verbatim>\<open>index.ts\<close>, from the log of the task to the end of the \<^verbatim>\<open>finally\<close> block, for the
  message \<open>messageId\<close>. In the \<^verbatim>\<open>finally\<close> block a throwing \<^verbatim>\<open>unsubscribe()\<close> skips the
  two statements after it.
\<close>

definition process_task :: "task_env \<Rightarrow> string \<Rightarrow> json option \<Rightarrow> json \<Rightarrow> unit eff" where
  "process_task env messageId tid prompt_text =
     seq (task_open [] env tid prompt_text)
       (try_finally
          (try_catch (task_try (\<lambda>v. v) XAddOut env tid prompt_text)
                     (task_catch (\<lambda>v. v) XAddOut env tid))
          (seq (call Unsubscribe (unsubscribe_r env))
               (seq (done_eff [SetCurrentTaskId None])
                    (call (XAck messageId) (xack_r env)))))"

text \<open>
  The same part of the list-based variants: \<^verbatim>\<open>rpush\<close>, \<^verbatim>\<open>${id || "unknown"}\<close> in the
  log lines (the later copy prints \<^verbatim>\<open>${id || ""}\<close>), and nothing to acknowledge.
\<close>

definition process_task_rpush :: "task_env \<Rightarrow> json option \<Rightarrow> json \<Rightarrow> unit eff" where
  "process_task_rpush env tid prompt_text =
     seq (task_open ''unknown'' env tid prompt_text)
       (try_finally
          (try_catch (task_try (\<lambda>v. or_else v ''unknown'') RPushOut env tid prompt_text)
                     (task_catch (\<lambda>v. or_else v ''unknown'') RPushOut env tid))
          (seq (call Unsubscribe (unsubscribe_r env))
               (done_eff [SetCurrentTaskId None])))"

subsection \<open>The consume loop\<close>

text \<open>
  The scan of the field list of a stream message: the value of \<^verbatim>\<open>rawMessage\<close> after the
  \<^verbatim>\<open>for\<close> loop, which steps by two. \<open>None\<close> is \<^verbatim>\<open>undefined\<close>, read past the end of a list
  of odd length.
\<close>

fun find_payload :: "string list \<Rightarrow> string option" where
  "find_payload [] = Some []"
| "find_payload [k] = (if k = ''payload'' then None else Some [])"
| "find_payload (k # v # rest) = (if k = ''payload'' then Some v else find_payload rest)"

record loop_env = task_env +
  xreadgroup_r :: "thrown + xread_reply"

text \<open>The body of the \<^verbatim>\<open>try\<close> inside \<^verbatim>\<open>while (true)\<close>: one message at most.\<close>

definition loop_try :: "(string \<Rightarrow> json option) \<Rightarrow> loop_env \<Rightarrow> unit eff" where
  "loop_try JSON_parse env =
     (case xreadgroup_r env of
        Inl e \<Rightarrow> throw_eff e [XReadGroup]
      | Inr None \<Rightarrow> done_eff [XReadGroup]
      | Inr (Some []) \<Rightarrow> done_eff [XReadGroup]
      | Inr (Some ((stream, []) # others)) \<Rightarrow> done_eff [XReadGroup]
      | Inr (Some ((stream, (messageId, flds) # msgs) # others)) \<Rightarrow>
          (case find_payload flds of
             None \<Rightarrow>
               seq (done_eff [XReadGroup, Log (NoPayloadFields messageId)])
                   (call (XAck messageId) (xack_r env))
           | Some rawMessage \<Rightarrow>
               if rawMessage = [] then
                 seq (done_eff [XReadGroup, Log (NoPayloadFields messageId)])
                     (call (XAck messageId) (xack_r env))
               else
                 (case JSON_parse rawMessage of
                    None \<Rightarrow>
                      done_eff [XReadGroup, Log (ReceivedMessage messageId rawMessage),
                                LogError (MessageParseFailed rawMessage)]
                  | Some payload \<Rightarrow>
                      if payload = JNull then
                        throw_eff TypeError [XReadGroup, Log (ReceivedMessage messageId rawMessage)]
                      else
                        (case get payload ''prompt'' of
                           None \<Rightarrow>
                             done_eff [XReadGroup, Log (ReceivedMessage messageId rawMessage),
                                       SetCurrentTaskId (get payload ''id''),
                                       LogError (MissingPrompt payload), SetCurrentTaskId None]
                         | Some p \<Rightarrow>
                             if \<not> truthy (Some p) then
                               done_eff [XReadGroup, Log (ReceivedMessage messageId rawMessage),
                                         SetCurrentTaskId (get payload ''id''),
                                         LogError (MissingPrompt payload), SetCurrentTaskId None]
                             else
                               seq (done_eff [XReadGroup, Log (ReceivedMessage messageId rawMessage),
                                              SetCurrentTaskId (get payload ''id'')])
                                   (process_task (task_env.truncate env) messageId
                                      (get payload ''id'') p)))))"

text \<open>One turn of \<^verbatim>\<open>while (true)\<close>, with the outer \<^verbatim>\<open>catch\<close>, which waits five seconds.\<close>

definition loop_iteration :: "(string \<Rightarrow> json option) \<Rightarrow> loop_env \<Rightarrow> unit eff" where
  "loop_iteration JSON_parse env =
     try_catch (loop_try JSON_parse env)
       (\<lambda>err. done_eff [LogError (WorkerLoopError err), Sleep 5000])"

text \<open>
  The loop itself, for as many turns as the list gives environments. The loop has no exit:
  a turn that threw would end it, with the error going to \<^verbatim>\<open>main().catch\<close>.
\<close>

fun consume :: "(string \<Rightarrow> json option) \<Rightarrow> loop_env list \<Rightarrow> unit eff" where
  "consume JSON_parse [] = done_eff []"
| "consume JSON_parse (env # envs) =
     seq (loop_iteration JSON_parse env) (consume JSON_parse envs)"

subsection \<open>What an observer of the queues sees\<close>

text \<open>
  The records a trace writes to the output queue, each with what the write returned:
  progress records, and terminal result records (status \<^verbatim>\<open>success\<close> or \<^verbatim>\<open>error\<close>).
\<close>

fun output_write :: "action \<Rightarrow> (WorkerResponse \<times> (thrown + unit)) option" where
  "output_write (XAddOut p r) = Some (p, r)"
| "output_write (RPushOut p r) = Some (p, r)"
| "output_write a = None"

definition output_writes :: "action list \<Rightarrow> (WorkerResponse \<times> (thrown + unit)) list" where
  "output_writes tr = List.map_filter output_write tr"

definition progress_writes :: "action list \<Rightarrow> WorkerResponse list" where
  "progress_writes tr = filter (\<lambda>p. status p = ''progress'') (map fst (output_writes tr))"

definition result_writes :: "action list \<Rightarrow> (WorkerResponse \<times> (thrown + unit)) list" where
  "result_writes tr = filter (\<lambda>w. status (fst w) \<noteq> ''progress'') (output_writes tr)"

text \<open>The terminal result records that did reach the output queue.\<close>

definition results_published :: "action list \<Rightarrow> WorkerResponse list" where
  "results_published tr = map fst (filter (\<lambda>w. snd w = Inr ()) (result_writes tr))"

text \<open>The acknowledgments a trace asks for, and whether a message was acknowledged.\<close>

fun is_xack :: "action \<Rightarrow> bool" where
  "is_xack (XAck m r) = True"
| "is_xack a = False"


text \<open>The calls into the agent runtime that a control signal can cause.\<close>

fun is_abort :: "action \<Rightarrow> bool" where
  "is_abort (AgentAbort r) = True"
| "is_abort a = False"

fun is_steer :: "action \<Rightarrow> bool" where
  "is_steer (SessionSteer m r) = True"
| "is_steer a = False"

text \<open>The tasks a trace puts on the input queue.\<close>

fun enqueued :: "action \<Rightarrow> WorkerTask option" where
  "enqueued (XAddIn t r) = Some t"
| "enqueued (RPushIn t r) = Some t"
| "enqueued a = None"

subsection \<open>The response text, in the words of the specification\<close>

text \<open>
  The ordered concatenation of the text of every text-typed content block of every
  assistant message-end event.
\<close>

definition assistant_message_end :: "agent_event \<Rightarrow> bool" where
  "assistant_message_end ev =
     (event_type ev = ''message_end'' \<and> role (event_message ev) = ''assistant'')"

definition response_text_spec :: "agent_event list \<Rightarrow> string" where
  "response_text_spec evs =
     concat (map block_text
       (filter (\<lambda>b. block_type b = ''text'')
          (concat (map (\<lambda>ev. content (event_message ev)) (filter assistant_message_end evs)))))"

subsection \<open>Sample inputs\<close>

text \<open>
  \<^verbatim>\<open>JSON.parse\<close> on the texts used in the examples below: five control signals and two
  tasks.
  Every other text used there (\<^verbatim>\<open>not-json\<close>, \<^verbatim>\<open>STOP\<close>) is not JSON.
\<close>

definition raw_stop :: string where
  \<open>raw_stop = ''{"command":"stop"}''\<close>

definition raw_steer :: string where
  \<open>raw_steer = ''{"command":"steer","message":"use tabs"}''\<close>

definition raw_steer_empty :: string where
  \<open>raw_steer_empty = ''{"command":"steer"}''\<close>

definition raw_reset :: string where
  \<open>raw_reset = ''{"command":"reset","id":"t9"}''\<close>

definition raw_reset_plain :: string where
  \<open>raw_reset_plain = ''{"command":"reset"}''\<close>

definition raw_task :: string where
  \<open>raw_task = ''{"id":"t1","prompt":"hello"}''\<close>

definition raw_task_unprintable :: string where
  \<open>raw_task_unprintable = ''{"id":{"toString":null},"prompt":"x"}''\<close>

definition JSON_parse_sample :: "string \<Rightarrow> json option" where
  "JSON_parse_sample s =
     (if s = raw_stop then Some (JObj [(''command'', JStr ''stop'')])
      else if s = raw_steer then
        Some (JObj [(''command'', JStr ''steer''), (''message'', JStr ''use tabs'')])
      else if s = raw_steer_empty then Some (JObj [(''command'', JStr ''steer'')])
      else if s = raw_reset then Some (JObj [(''command'', JStr ''reset''), (''id'', JStr ''t9'')])
      else if s = raw_reset_plain then Some (JObj [(''command'', JStr ''reset'')])
      else if s = raw_task then Some (JObj [(''id'', JStr ''t1''), (''prompt'', JStr ''hello'')])
      else if s = raw_task_unprintable then
        Some (JObj [(''id'', JObj [(''toString'', JNull)]), (''prompt'', JStr ''x'')])
      else None)"

text \<open>An environment in which every call of the handler succeeds.\<close>

definition control_ok :: control_env where
  "control_ok = \<lparr>abort_r = Inr (), steer_r = Inr (), newSession_r = Inr (), enqueue_r = Inr ()\<rparr>"

text \<open>An environment in which Redis is down and the runtime rejects.\<close>

definition control_down :: control_env where
  "control_down =
     \<lparr>abort_r = Inl (error_object ''Error'' ''no agent''),
      steer_r = Inl (error_object ''Error'' ''not streaming''),
      newSession_r = Inl (error_object ''Error'' ''session busy''),
      enqueue_r = Inl (error_object ''Error'' ''Connection is closed.'')\<rparr>"

text \<open>Events: a message event of a role with text blocks, and a tool event.\<close>

definition message_event :: "string \<Rightarrow> string \<Rightarrow> string list \<Rightarrow> agent_event" where
  "message_event ty r texts =
     \<lparr>event_type = ty,
      event_message = \<lparr>role = r, content = map (\<lambda>t. \<lparr>block_type = ''text'', block_text = t\<rparr>) texts\<rparr>,
      toolName = [], args = JNull, result = JNull, isError = False\<rparr>"

definition tool_event :: "string \<Rightarrow> string \<Rightarrow> json \<Rightarrow> json \<Rightarrow> bool \<Rightarrow> agent_event" where
  "tool_event ty tool a res err =
     \<lparr>event_type = ty, event_message = \<lparr>role = [], content = []\<rparr>,
      toolName = tool, args = a, result = res, isError = err\<rparr>"

text \<open>
  A run of the session: the user message, an assistant message (with a streaming update)
  of a thinking block and a text block, a tool call with its result message, and a closing
  assistant message.
\<close>

definition sample_events :: "agent_event list" where
  "sample_events =
     [message_event ''message_start'' ''user'' [''run tool''],
      message_event ''message_end'' ''user'' [''run tool''],
      message_event ''message_start'' ''assistant'' [],
      message_event ''message_update'' ''assistant'' [''on it''],
      \<lparr>event_type = ''message_end'',
       event_message = \<lparr>role = ''assistant'',
         content = [\<lparr>block_type = ''thinking'', block_text = ''hm''\<rparr>,
                    \<lparr>block_type = ''text'', block_text = ''on it. ''\<rparr>]\<rparr>,
       toolName = [], args = JNull, result = JNull, isError = False\<rparr>,
      tool_event ''tool_execution_start'' ''x'' (JObj [(''path'', JStr ''a'')]) JNull False,
      tool_event ''tool_execution_end'' ''x'' JNull (JStr ''ok'') False,
      message_event ''message_end'' ''toolResult'' [''ok''],
      message_event ''message_start'' ''assistant'' [],
      message_event ''message_end'' ''assistant'' [''done'']]"

text \<open>
  Environments of one task: all calls succeed; the output queue rejects every write; the
  prompt is aborted; the prompt fails with an error; the prompt rejects with a string.
\<close>

definition task_ok :: task_env where
  "task_ok =
     \<lparr>subscribe_r = Inr (), events = map (\<lambda>ev. (ev, Inr ())) sample_events, prompt_r = Inr (),
      publish_result_r = Inr (), publish_error_r = Inr (), unsubscribe_r = Inr (),
      xack_r = Inr ()\<rparr>"

definition task_publish_down :: task_env where
  "task_publish_down =
     \<lparr>subscribe_r = Inr (), events = [], prompt_r = Inr (),
      publish_result_r = Inl (error_object ''ReplyError'' ''WRONGTYPE''),
      publish_error_r = Inl (error_object ''ReplyError'' ''WRONGTYPE''),
      unsubscribe_r = Inr (), xack_r = Inr ()\<rparr>"

definition task_aborted :: task_env where
  "task_aborted =
     \<lparr>subscribe_r = Inr (),
      events = [(message_event ''message_start'' ''assistant'' [], Inr ())],
      prompt_r = Inl (error_object ''Error'' ''Aborted''),
      publish_result_r = Inr (), publish_error_r = Inr (), unsubscribe_r = Inr (),
      xack_r = Inr ()\<rparr>"

definition task_failed :: task_env where
  "task_failed =
     \<lparr>subscribe_r = Inr (), events = [],
      prompt_r = Inl (error_object ''Error'' ''429 rate limit''),
      publish_result_r = Inr (), publish_error_r = Inr (), unsubscribe_r = Inr (),
      xack_r = Inr ()\<rparr>"

definition task_rejected_with_string :: task_env where
  "task_rejected_with_string =
     \<lparr>subscribe_r = Inr (), events = [], prompt_r = Inl (Some (JStr ''boom'')),
      publish_result_r = Inr (), publish_error_r = Inr (), unsubscribe_r = Inr (),
      xack_r = Inr ()\<rparr>"

text \<open>A task id that does not convert to a string.\<close>

definition unprintable :: json where
  "unprintable = JObj [(''toString'', JNull)]"

text \<open>Environments of one turn of the loop: a reply with one message of the given fields.\<close>

definition loop_with :: "string list \<Rightarrow> task_env \<Rightarrow> loop_env" where
  "loop_with flds env =
     task_env.extend env
       \<lparr>xreadgroup_r = Inr (Some [(''agent_in'', [(''1-0'', flds)])])\<rparr>"

section \<open>Properties\<close>

lemmas eff_defs = done_eff_def throw_eff_def call_def seq_def try_catch_def try_finally_def

lemmas handler_defs = on_message_def on_message_rpush_def on_message_plain_def
  on_message_plain_try_def control_try_def

lemmas sample_defs = JSON_parse_sample_def raw_stop_def raw_steer_def raw_steer_empty_def
  raw_reset_def raw_reset_plain_def raw_task_def raw_task_unprintable_def control_ok_def
  control_down_def

subsection \<open>Conversions to strings\<close>

text \<open>A falsy value is a primitive, so \<^verbatim>\<open>${v || "d"}\<close> throws exactly when \<^verbatim>\<open>${v}\<close> does.\<close>

lemma falsy_stringifiable: "\<not> truthy (Some v) \<Longrightarrow> stringifiable v"
  by (cases v) simp_all

lemma template_ok_or_else: "template_ok (or_else v d) = template_ok v"
proof (cases "truthy v")
  case True
  then show ?thesis by (simp add: or_else_def)
next
  case False
  then have "template_ok v"
    by (cases v) (simp_all add: template_ok_def falsy_stringifiable)
  with False show ?thesis by (simp add: or_else_def template_ok_def)
qed

lemma log_template_ok:
  "list_all template_ok vs \<Longrightarrow> log_template vs l = (Inr (), [Log l])"
  "list_all template_ok vs \<Longrightarrow> error_template vs l = (Inr (), [LogError l])"
  by (simp_all add: log_template_def error_template_def done_eff_def)

lemma log_template_throws:
  "\<not> list_all template_ok vs \<Longrightarrow> log_template vs l = (Inl ConvertError, [])"
  "\<not> list_all template_ok vs \<Longrightarrow> error_template vs l = (Inl ConvertError, [])"
  by (simp_all add: log_template_def error_template_def throw_eff_def)

subsection \<open>Control signals\<close>

text \<open>
  C2, as stated: a stop signal delivered while no task is current makes no abort call.
  The handler does not test \<^verbatim>\<open>currentTaskId\<close>, it only prints it: with the variable
  undefined it logs the signal for task \<^verbatim>\<open>none\<close> and calls \<^verbatim>\<open>agent.abort()\<close>.
\<close>

theorem stop_on_idle_worker_calls_abort:
  "on_message JSON_parse_sample control_ok None raw_stop =
     (Inr (), [Log (InterruptStop None), AgentAbort (Inr ())])"
  by (simp add: handler_defs sample_defs eff_defs log_template_def or_else_def template_ok_def)

text \<open>
  C2, amended: for every stop signal delivered while no task is current, and for every one
  delivered while the id in \<^verbatim>\<open>currentTaskId\<close> converts to a string, the handler logs
  the signal and makes exactly one abort call into the agent runtime; it writes nothing to
  the output queue and makes no other call, except the error log when the abort call throws
  (and, in the oldest variant, the second abort of its \<^verbatim>\<open>catch\<close> when the text is
  \<^verbatim>\<open>STOP\<close>). The theorem also gives the remaining case: an id that does not convert makes
  the log line throw, and the \<^verbatim>\<open>catch\<close> runs without an abort call from the \<^verbatim>\<open>try\<close>.
  Stated for the handler of \<^verbatim>\<open>index.ts\<close> and for the two list-based variants.
\<close>

theorem stop_aborts_after_its_log:
  assumes "JSON_parse rawSignal = Some signal" and "signal \<noteq> JNull"
    and "get signal ''command'' = Some (JStr ''stop'')"
  shows "(template_ok currentTaskId \<longrightarrow>
           snd (on_message JSON_parse env currentTaskId rawSignal) =
             Log (InterruptStop currentTaskId) # AgentAbort (abort_r env) #
               (case abort_r env of
                  Inl e \<Rightarrow> [LogError (ControlParseFailed rawSignal)]
                | Inr u \<Rightarrow> [])
         \<and> snd (on_message_rpush JSON_parse env currentTaskId rawSignal) =
             Log (InterruptStop currentTaskId) # AgentAbort (abort_r env) #
               (case abort_r env of
                  Inl e \<Rightarrow> [LogError (ControlParseFailed rawSignal)]
                | Inr u \<Rightarrow> [])
         \<and> snd (on_message_plain JSON_parse env currentTaskId rawSignal) =
             Log (InterruptStop currentTaskId) # AgentAbort (abort_r env) #
               (case abort_r env of
                  Inl e \<Rightarrow>
                    if rawSignal = ''STOP'' then [Log PlainStop, AgentAbort (abort_r env)] else []
                | Inr u \<Rightarrow> []))
       \<and> (\<not> template_ok currentTaskId \<longrightarrow>
           snd (on_message JSON_parse env currentTaskId rawSignal) =
             [LogError (ControlParseFailed rawSignal)]
         \<and> snd (on_message_rpush JSON_parse env currentTaskId rawSignal) =
             [LogError (ControlParseFailed rawSignal)]
         \<and> snd (on_message_plain JSON_parse env currentTaskId rawSignal) =
             (if rawSignal = ''STOP'' then [Log PlainStop, AgentAbort (abort_r env)] else []))
       \<and> template_ok None"
  using assms
  by (simp add: handler_defs eff_defs log_template_def template_ok_or_else split: sum.splits)
     (simp add: template_ok_def)

theorem stop_aborts_after_its_log_witness:
  "snd (on_message JSON_parse_sample control_ok (Some (JStr ''t2'')) raw_stop) =
        [Log (InterruptStop (Some (JStr ''t2''))), AgentAbort (Inr ())]
   \<and> snd (on_message_rpush JSON_parse_sample control_ok None raw_stop) =
        [Log (InterruptStop None), AgentAbort (Inr ())]
   \<and> snd (on_message_plain JSON_parse_sample control_ok None raw_stop) =
        [Log (InterruptStop None), AgentAbort (Inr ())]
   \<and> snd (on_message JSON_parse_sample control_ok (Some unprintable) raw_stop) =
        [LogError (ControlParseFailed raw_stop)]"
proof -
  have p: "JSON_parse_sample raw_stop = Some (JObj [(''command'', JStr ''stop'')])"
    by (simp add: sample_defs)
  have n: "JObj [(''command'', JStr ''stop'')] \<noteq> JNull" by simp
  have c: "get (JObj [(''command'', JStr ''stop'')]) ''command'' = Some (JStr ''stop'')" by simp
  have t: "template_ok (Some (JStr ''t2''))" "template_ok None" "\<not> template_ok (Some unprintable)"
    by (simp_all add: template_ok_def unprintable_def)
  show ?thesis
    using t
      stop_aborts_after_its_log [where JSON_parse = JSON_parse_sample and rawSignal = raw_stop
        and env = control_ok and currentTaskId = "Some (JStr ''t2'')", OF p n c]
      stop_aborts_after_its_log [where JSON_parse = JSON_parse_sample and rawSignal = raw_stop
        and env = control_ok and currentTaskId = None, OF p n c]
      stop_aborts_after_its_log [where JSON_parse = JSON_parse_sample and rawSignal = raw_stop
        and env = control_ok and currentTaskId = "Some unprintable", OF p n c]
    by (simp add: control_ok_def)
qed

text \<open>
  C3, as stated: a steer signal delivered while no task is current is dropped with a log and
  the steer operation of the runtime is not called. The handler forwards it: the branch
  tests the command and the message, not \<^verbatim>\<open>currentTaskId\<close>.
\<close>

theorem steer_on_idle_worker_is_forwarded:
  "on_message JSON_parse_sample control_ok None raw_steer =
     (Inr (), [Log (SteerReceived None (JStr ''use tabs'')),
               SessionSteer (JStr ''use tabs'') (Inr ())])"
  by (simp add: handler_defs sample_defs eff_defs log_template_def or_else_def template_ok_def)

text \<open>
  C3, amended: whether or not a task is current, a steer signal with a truthy message is
  logged (with the current task or \<^verbatim>\<open>none\<close>) and forwarded to the steer operation of
  the runtime, provided the log line can be built: the message and the id in
  \<^verbatim>\<open>currentTaskId\<close> convert to strings. A steer signal without a truthy message makes no
  call and writes no log. The theorem also gives the remaining case: when the log line
  throws, the \<^verbatim>\<open>catch\<close> runs and the steer operation is not called.
\<close>

theorem steer_forwarded_after_its_log:
  assumes "JSON_parse rawSignal = Some signal" and "signal \<noteq> JNull"
    and "get signal ''command'' = Some (JStr ''steer'')"
  shows "(\<forall>m. get signal ''message'' = Some m \<and> truthy (Some m)
              \<and> template_ok currentTaskId \<and> stringifiable m \<longrightarrow>
            snd (on_message JSON_parse env currentTaskId rawSignal) =
              Log (SteerReceived currentTaskId m) # SessionSteer m (steer_r env) #
                (case steer_r env of
                   Inl e \<Rightarrow> [LogError (ControlParseFailed rawSignal)]
                 | Inr u \<Rightarrow> [])
          \<and> snd (on_message_rpush JSON_parse env currentTaskId rawSignal) =
              Log (SteerReceived currentTaskId m) # SessionSteer m (steer_r env) #
                (case steer_r env of
                   Inl e \<Rightarrow> [LogError (ControlParseFailed rawSignal)]
                 | Inr u \<Rightarrow> [])
          \<and> snd (on_message_plain JSON_parse env currentTaskId rawSignal) =
              Log (SteerReceived currentTaskId m) # SessionSteer m (steer_r env) #
                (case steer_r env of
                   Inl e \<Rightarrow>
                     if rawSignal = ''STOP'' then [Log PlainStop, AgentAbort (abort_r env)] else []
                 | Inr u \<Rightarrow> []))
       \<and> (\<forall>m. get signal ''message'' = Some m \<and> truthy (Some m)
              \<and> \<not> (template_ok currentTaskId \<and> stringifiable m) \<longrightarrow>
            snd (on_message JSON_parse env currentTaskId rawSignal) =
              [LogError (ControlParseFailed rawSignal)]
          \<and> snd (on_message_rpush JSON_parse env currentTaskId rawSignal) =
              [LogError (ControlParseFailed rawSignal)]
          \<and> snd (on_message_plain JSON_parse env currentTaskId rawSignal) =
              (if rawSignal = ''STOP'' then [Log PlainStop, AgentAbort (abort_r env)] else []))
       \<and> (\<not> truthy (get signal ''message'') \<longrightarrow>
            on_message JSON_parse env currentTaskId rawSignal = (Inr (), [])
          \<and> on_message_rpush JSON_parse env currentTaskId rawSignal = (Inr (), [])
          \<and> on_message_plain JSON_parse env currentTaskId rawSignal = (Inr (), []))"
proof (intro conjI allI impI)
  fix m
  assume h: "get signal ''message'' = Some m \<and> truthy (Some m)
      \<and> template_ok currentTaskId \<and> stringifiable m"
  then have ok: "list_all template_ok [or_else currentTaskId ''none'', Some m]"
    by (simp add: template_ok_or_else) (simp add: template_ok_def)
  show "snd (on_message JSON_parse env currentTaskId rawSignal) =
              Log (SteerReceived currentTaskId m) # SessionSteer m (steer_r env) #
                (case steer_r env of
                   Inl e \<Rightarrow> [LogError (ControlParseFailed rawSignal)]
                 | Inr u \<Rightarrow> [])"
    using assms h by (simp add: handler_defs log_template_ok [OF ok] eff_defs split: sum.splits)
  show "snd (on_message_rpush JSON_parse env currentTaskId rawSignal) =
              Log (SteerReceived currentTaskId m) # SessionSteer m (steer_r env) #
                (case steer_r env of
                   Inl e \<Rightarrow> [LogError (ControlParseFailed rawSignal)]
                 | Inr u \<Rightarrow> [])"
    using assms h by (simp add: handler_defs log_template_ok [OF ok] eff_defs split: sum.splits)
  show "snd (on_message_plain JSON_parse env currentTaskId rawSignal) =
              Log (SteerReceived currentTaskId m) # SessionSteer m (steer_r env) #
                (case steer_r env of
                   Inl e \<Rightarrow>
                     if rawSignal = ''STOP'' then [Log PlainStop, AgentAbort (abort_r env)] else []
                 | Inr u \<Rightarrow> [])"
    using assms h by (simp add: handler_defs log_template_ok [OF ok] eff_defs split: sum.splits)
next
  fix m
  assume h: "get signal ''message'' = Some m \<and> truthy (Some m)
      \<and> \<not> (template_ok currentTaskId \<and> stringifiable m)"
  then have bad: "\<not> list_all template_ok [or_else currentTaskId ''none'', Some m]"
    by (simp add: template_ok_or_else) (simp add: template_ok_def)
  show "snd (on_message JSON_parse env currentTaskId rawSignal) =
              [LogError (ControlParseFailed rawSignal)]"
    using assms h by (simp add: handler_defs log_template_throws [OF bad] eff_defs)
  show "snd (on_message_rpush JSON_parse env currentTaskId rawSignal) =
              [LogError (ControlParseFailed rawSignal)]"
    using assms h by (simp add: handler_defs log_template_throws [OF bad] eff_defs)
  show "snd (on_message_plain JSON_parse env currentTaskId rawSignal) =
              (if rawSignal = ''STOP'' then [Log PlainStop, AgentAbort (abort_r env)] else [])"
    using assms h by (simp add: handler_defs log_template_throws [OF bad] eff_defs)
next
  assume "\<not> truthy (get signal ''message'')"
  then show "on_message JSON_parse env currentTaskId rawSignal = (Inr (), [])"
    "on_message_rpush JSON_parse env currentTaskId rawSignal = (Inr (), [])"
    "on_message_plain JSON_parse env currentTaskId rawSignal = (Inr (), [])"
    using assms by (simp_all add: handler_defs eff_defs)
qed

theorem steer_forwarded_after_its_log_witness:
  "snd (on_message JSON_parse_sample control_ok (Some (JStr ''t2'')) raw_steer) =
     [Log (SteerReceived (Some (JStr ''t2'')) (JStr ''use tabs'')),
      SessionSteer (JStr ''use tabs'') (Inr ())]
   \<and> snd (on_message JSON_parse_sample control_ok (Some unprintable) raw_steer) =
     [LogError (ControlParseFailed raw_steer)]
   \<and> on_message JSON_parse_sample control_ok (Some (JStr ''t2'')) raw_steer_empty = (Inr (), [])"
proof -
  have p: "JSON_parse_sample raw_steer =
      Some (JObj [(''command'', JStr ''steer''), (''message'', JStr ''use tabs'')])"
    by (simp add: sample_defs)
  have p': "JSON_parse_sample raw_steer_empty = Some (JObj [(''command'', JStr ''steer'')])"
    by (simp add: sample_defs)
  have t: "template_ok (Some (JStr ''t2''))" "\<not> template_ok (Some unprintable)"
    by (simp_all add: template_ok_def unprintable_def)
  show ?thesis
    using t
      steer_forwarded_after_its_log [where JSON_parse = JSON_parse_sample
        and rawSignal = raw_steer
        and env = control_ok and currentTaskId = "Some (JStr ''t2'')", OF p]
      steer_forwarded_after_its_log [where JSON_parse = JSON_parse_sample
        and rawSignal = raw_steer
        and env = control_ok and currentTaskId = "Some unprintable", OF p]
      steer_forwarded_after_its_log [where JSON_parse = JSON_parse_sample
        and rawSignal = raw_steer_empty
        and env = control_ok and currentTaskId = "Some (JStr ''t2'')", OF p']
    by (simp add: control_ok_def)
qed


text \<open>
  C7, as stated: the greeting task that a reset signal enqueues has no id. The reset branch
  copies \<^verbatim>\<open>signal.id\<close> into the task: a reset signal with the id \<^verbatim>\<open>t9\<close> enqueues a
  greeting task with the id \<^verbatim>\<open>t9\<close>.
\<close>

theorem reset_greeting_carries_signal_id:
  "List.map_filter enqueued (snd (on_message JSON_parse_sample control_ok None raw_reset)) =
     [\<lparr>task_id = Some (JStr ''t9''), source = Some ''internal'', prompt = Some (JStr greeting)\<rparr>]"
  by (simp add: handler_defs sample_defs eff_defs)


text \<open>
  C7, amended: for every reset signal, whether or not a task is current, the handler first
  asks the runtime for a new session and, when that call resolves, enqueues exactly one
  greeting task on the input queue, whose id is the id of the signal (a task without id
  exactly when the signal has none); when the call rejects, nothing is enqueued and the
  error is logged. Stated for \<^verbatim>\<open>index.ts\<close> and for the list-based variant.
\<close>

theorem reset_discards_then_enqueues:
  assumes "JSON_parse rawSignal = Some signal" and "signal \<noteq> JNull"
    and "get signal ''command'' = Some (JStr ''reset'')"
  shows "snd (on_message JSON_parse env currentTaskId rawSignal) =
           Log ResetReceived # SessionNewSession (newSession_r env) #
            (case newSession_r env of
               Inl e \<Rightarrow> [LogError (ControlParseFailed rawSignal)]
             | Inr u \<Rightarrow>
                 XAddIn \<lparr>task_id = get signal ''id'', source = Some ''internal'',
                         prompt = Some (JStr greeting)\<rparr> (enqueue_r env) #
                 (case enqueue_r env of
                    Inl e \<Rightarrow> [LogError (ControlParseFailed rawSignal)]
                  | Inr u \<Rightarrow> []))
      \<and> snd (on_message_rpush JSON_parse env currentTaskId rawSignal) =
           Log ResetReceived # SessionNewSession (newSession_r env) #
            (case newSession_r env of
               Inl e \<Rightarrow> [LogError (ControlParseFailed rawSignal)]
             | Inr u \<Rightarrow>
                 RPushIn \<lparr>task_id = get signal ''id'', source = Some ''internal'',
                          prompt = Some (JStr greeting_rpush)\<rparr> (enqueue_r env) #
                 (case enqueue_r env of
                    Inl e \<Rightarrow> [LogError (ControlParseFailed rawSignal)]
                  | Inr u \<Rightarrow> []))"
  using assms by (simp add: handler_defs eff_defs split: sum.splits)

theorem reset_discards_then_enqueues_witness:
  "snd (on_message JSON_parse_sample control_ok (Some (JStr ''t2'')) raw_reset_plain) =
     [Log ResetReceived, SessionNewSession (Inr ()),
      XAddIn \<lparr>task_id = None, source = Some ''internal'', prompt = Some (JStr greeting)\<rparr> (Inr ())]
   \<and> snd (on_message_rpush JSON_parse_sample control_ok None raw_reset_plain) =
     [Log ResetReceived, SessionNewSession (Inr ()),
      RPushIn \<lparr>task_id = None, source = Some ''internal'', prompt = Some (JStr greeting_rpush)\<rparr> (Inr ())]"
proof -
  have p: "JSON_parse_sample raw_reset_plain = Some (JObj [(''command'', JStr ''reset'')])"
    by (simp add: sample_defs)
  show ?thesis
    using
      reset_discards_then_enqueues [where JSON_parse = JSON_parse_sample
        and rawSignal = raw_reset_plain and env = control_ok
        and currentTaskId = "Some (JStr ''t2'')", OF p]
      reset_discards_then_enqueues [where JSON_parse = JSON_parse_sample
        and rawSignal = raw_reset_plain and env = control_ok and currentTaskId = None, OF p]
    by (simp add: control_ok_def)
qed


text \<open>
  C9: the handler never throws. Whatever the text of the signal, the value of
  \<^verbatim>\<open>currentTaskId\<close> and whatever the calls return, the handler returns normally; when its
  \<^verbatim>\<open>try\<close> block threw (a text that is not JSON, the signal \<^verbatim>\<open>null\<close>, a log line that
  cannot be built, a throwing abort, a rejected steer, new session or enqueue), the calls
  made up to there are followed by the error log, and nothing else. Stated for
  \<^verbatim>\<open>index.ts\<close> and for the list-based variant with the same \<^verbatim>\<open>catch\<close>.
\<close>

theorem control_handler_never_throws:
  "fst (on_message JSON_parse env currentTaskId rawSignal) = Inr ()
   \<and> snd (on_message JSON_parse env currentTaskId rawSignal) =
       snd (control_try XAddIn greeting JSON_parse env currentTaskId rawSignal) @
       (case fst (control_try XAddIn greeting JSON_parse env currentTaskId rawSignal) of
          Inl e \<Rightarrow> [LogError (ControlParseFailed rawSignal)]
        | Inr u \<Rightarrow> [])
   \<and> fst (on_message_rpush JSON_parse env currentTaskId rawSignal) = Inr ()
   \<and> snd (on_message_rpush JSON_parse env currentTaskId rawSignal) =
       snd (control_try RPushIn greeting_rpush JSON_parse env currentTaskId rawSignal) @
       (case fst (control_try RPushIn greeting_rpush JSON_parse env currentTaskId rawSignal) of
          Inl e \<Rightarrow> [LogError (ControlParseFailed rawSignal)]
        | Inr u \<Rightarrow> [])"
proof -
  have returns: "fst (try_catch m (\<lambda>e. done_eff tr)) = Inr ()" for m tr
    by (cases "fst m") (simp_all add: try_catch_def done_eff_def)
  have logged: "snd (try_catch m (\<lambda>e. done_eff tr)) =
      snd m @ (case fst m of Inl e \<Rightarrow> tr | Inr u \<Rightarrow> [])" for m tr
    by (cases "fst m") (simp_all add: try_catch_def done_eff_def)
  show ?thesis
    unfolding on_message_def on_message_rpush_def
    by (simp only: returns logged simp_thms)
qed

theorem control_handler_never_throws_witness:
  "on_message JSON_parse_sample control_down None ''not-json'' =
     (Inr (), [LogError (ControlParseFailed ''not-json'')])
   \<and> on_message JSON_parse_sample control_down None raw_steer =
     (Inr (), [Log (SteerReceived None (JStr ''use tabs'')),
               SessionSteer (JStr ''use tabs'') (Inl (error_object ''Error'' ''not streaming'')),
               LogError (ControlParseFailed raw_steer)])
   \<and> on_message_rpush JSON_parse_sample control_down (Some (JStr ''t2'')) raw_reset_plain =
     (Inr (), [Log ResetReceived, SessionNewSession (Inl (error_object ''Error'' ''session busy'')),
               LogError (ControlParseFailed raw_reset_plain)])"
proof -
  have a: "control_try XAddIn greeting JSON_parse_sample control_down None ''not-json'' =
      (Inl SyntaxError, [])"
    by (simp add: control_try_def sample_defs eff_defs log_template_def or_else_def template_ok_def)
  have b: "control_try XAddIn greeting JSON_parse_sample control_down None raw_steer =
      (Inl (error_object ''Error'' ''not streaming''),
       [Log (SteerReceived None (JStr ''use tabs'')),
        SessionSteer (JStr ''use tabs'') (Inl (error_object ''Error'' ''not streaming''))])"
    by (simp add: control_try_def sample_defs eff_defs log_template_def or_else_def template_ok_def)
  have c: "control_try RPushIn greeting_rpush JSON_parse_sample control_down (Some (JStr ''t2''))
        raw_reset_plain =
      (Inl (error_object ''Error'' ''session busy''),
       [Log ResetReceived, SessionNewSession (Inl (error_object ''Error'' ''session busy''))])"
    by (simp add: control_try_def sample_defs eff_defs log_template_def or_else_def template_ok_def)
  show ?thesis
    using control_handler_never_throws [of JSON_parse_sample control_down None "''not-json''"]
      control_handler_never_throws [of JSON_parse_sample control_down None raw_steer]
      control_handler_never_throws [of JSON_parse_sample control_down "Some (JStr ''t2'')"
        raw_reset_plain]
    by (simp add: a b c prod_eq_iff)
qed


subsection \<open>Traces of one task\<close>

lemmas task_sample_defs = task_ok_def task_publish_down_def task_aborted_def task_failed_def
  task_rejected_with_string_def sample_events_def message_event_def tool_event_def

lemma foldl_text:
  "foldl (\<lambda>acc b. if block_type b = ''text'' then acc @ block_text b else acc) acc bs =
   acc @ concat (map block_text (filter (\<lambda>b. block_type b = ''text'') bs))"
  by (induction bs arbitrary: acc) simp_all

lemma collect_text_spec:
  "collect_text acc ev = acc @ response_text_spec [ev]"
  by (simp add: collect_text_def response_text_spec_def assistant_message_end_def foldl_text)

lemma response_text_spec_Cons:
  "response_text_spec (ev # evs) = response_text_spec [ev] @ response_text_spec evs"
  by (simp add: response_text_spec_def)

lemma emit_events_text:
  "fst (emit_events publish tid acc es) = acc @ response_text_spec (map fst es)"
proof (induction es arbitrary: acc)
  case Nil
  show ?case by (simp add: response_text_spec_def)
next
  case (Cons e es)
  have "fst (emit_events publish tid acc (e # es)) =
        fst (emit_events publish tid (collect_text acc (fst e)) es)"
    by (simp add: Let_def subscriber_def)
  also have "\<dots> = collect_text acc (fst e) @ response_text_spec (map fst es)"
    by (rule Cons.IH)
  also have "\<dots> = acc @ response_text_spec (map fst (e # es))"
    using response_text_spec_Cons [of "fst e" "map fst es"] by (simp add: collect_text_spec)
  finally show ?case .
qed

lemma output_writes_append:
  "output_writes (xs @ ys) = output_writes xs @ output_writes ys"
  by (simp add: output_writes_def List.map_filter_def)

lemma result_writes_append:
  "result_writes (xs @ ys) = result_writes xs @ result_writes ys"
  by (simp add: result_writes_def output_writes_append)

lemma result_writes_Cons:
  "result_writes (a # tr) =
     (case output_write a of
        None \<Rightarrow> result_writes tr
      | Some w \<Rightarrow> if status (fst w) = ''progress'' then result_writes tr else w # result_writes tr)"
  by (simp add: result_writes_def output_writes_def split: option.splits)

lemma result_writes_Nil: "result_writes [] = []"
  by (simp add: result_writes_def output_writes_def)

lemma progress_of_status:
  "progress_of tid ev = Some p \<Longrightarrow> status p = ''progress''"
  by (auto simp add: progress_of_def progress_record_def split: if_splits)

lemma subscriber_no_result:
  "result_writes (snd (subscriber XAddOut tid acc e)) = []"
  "result_writes (snd (subscriber RPushOut tid acc e)) = []"
  by (auto simp add: subscriber_def publish_progress_def result_writes_Cons result_writes_Nil
      dest: progress_of_status split: option.splits sum.splits)

lemma emit_events_no_result:
  "result_writes (snd (emit_events XAddOut tid acc es)) = []"
  "result_writes (snd (emit_events RPushOut tid acc es)) = []"
  by (induction es arbitrary: acc)
     (simp_all add: Let_def result_writes_append subscriber_no_result result_writes_Nil)

lemma subscriber_no_xack:
  "filter is_xack (snd (subscriber XAddOut tid acc e)) = []"
  by (simp add: subscriber_def publish_progress_def split: option.splits sum.splits)

lemma emit_events_no_xack:
  "filter is_xack (snd (emit_events XAddOut tid acc es)) = []"
  by (induction es arbitrary: acc) (simp_all add: Let_def subscriber_no_xack)

lemma template_ok_simps:
  "template_ok None" "template_ok (Some j) = stringifiable j"
  by (simp_all add: template_ok_def)

text \<open>
  The task is dispatched exactly when its log line can be built and the subscription
  returns.
\<close>

lemma task_open_returns:
  "fst (task_open d env tid p) = Inr () \<longleftrightarrow>
     template_ok tid \<and> stringifiable p \<and> subscribe_r env = Inr ()"
  by (auto simp add: task_open_def log_template_def template_ok_or_else eff_defs
      template_ok_simps split: sum.splits)

lemma dispatched_iff:
  "dispatched env tid p \<longleftrightarrow> template_ok tid \<and> stringifiable p \<and> subscribe_r env = Inr ()"
  by (simp add: dispatched_def task_open_returns)

lemma task_open_trace:
  "dispatched env tid p \<Longrightarrow>
     task_open d env tid p = (Inr (), [Log (ProcessingTask tid p), SessionSubscribe (Inr ())])"
  by (simp add: dispatched_iff task_open_def log_template_def template_ok_or_else eff_defs
      template_ok_simps)

lemma not_dispatched:
  "\<not> dispatched env tid p \<Longrightarrow>
     process_task env messageId tid p = task_open [] env tid p
     \<and> process_task_rpush env tid p = task_open ''unknown'' env tid p
     \<and> filter is_xack (snd (process_task env messageId tid p)) = []
     \<and> output_writes (snd (process_task env messageId tid p)) = []
     \<and> output_writes (snd (process_task_rpush env tid p)) = []
     \<and> SessionPrompt p \<notin> set (snd (process_task env messageId tid p))"
  by (auto simp add: dispatched_iff process_task_def process_task_rpush_def task_open_def
      log_template_def template_ok_or_else eff_defs template_ok_simps output_writes_def
      split: sum.splits)

lemma task_catch_eq:
  assumes "template_ok (shown tid)"
  shows "task_catch shown publish env tid err =
     (case read_message err of
        Inl t \<Rightarrow> (Inl t, [])
      | Inr m \<Rightarrow>
          (publish_error_r env,
           [if m = Some (JStr ''Aborted'') then Log (TaskAborted tid)
            else LogError (TaskError tid err),
            publish (errorPayload tid m) (publish_error_r env)]))"
  using assms
  by (simp add: task_catch_def log_template_def error_template_def eff_defs split: sum.splits)

lemma task_catch_writes:
  assumes "template_ok (shown tid)"
  shows "result_writes (snd (task_catch shown XAddOut env tid err)) =
           (case read_message err of
              Inl t \<Rightarrow> []
            | Inr m \<Rightarrow> [(errorPayload tid m, publish_error_r env)])"
    and "result_writes (snd (task_catch shown RPushOut env tid err)) =
           (case read_message err of
              Inl t \<Rightarrow> []
            | Inr m \<Rightarrow> [(errorPayload tid m, publish_error_r env)])"
    and "filter is_xack (snd (task_catch shown XAddOut env tid err)) = []"
  by (simp_all add: task_catch_eq [where shown = shown and tid = tid, OF assms]
      result_writes_Cons result_writes_Nil errorPayload_def split: sum.splits)

lemma process_task_trace:
  assumes "dispatched env tid p"
  shows "snd (process_task env messageId tid p) =
     [Log (ProcessingTask tid p), SessionSubscribe (Inr ()), SessionPrompt p]
     @ snd (emit_events XAddOut tid [] (events env))
     @ (case prompt_r env of
          Inl err \<Rightarrow> snd (task_catch (\<lambda>v. v) XAddOut env tid err)
        | Inr u \<Rightarrow>
            [Log (TaskCompleted tid),
             XAddOut (resultPayload tid (response_text_spec (map fst (events env))))
               (publish_result_r env)]
            @ (case publish_result_r env of
                 Inl err \<Rightarrow> snd (task_catch (\<lambda>v. v) XAddOut env tid err)
               | Inr u \<Rightarrow> []))
     @ Unsubscribe (unsubscribe_r env) #
       (case unsubscribe_r env of
          Inl e \<Rightarrow> []
        | Inr u \<Rightarrow> [SetCurrentTaskId None, XAck messageId (xack_r env)])"
proof -
  have t: "template_ok tid" using assms by (simp add: dispatched_iff)
  then have l: "log_template [tid] l = (Inr (), [Log l])" for l
    by (simp add: log_template_def done_eff_def)
  show ?thesis
    by (simp add: process_task_def task_open_trace [OF assms] task_try_def Let_def l
        emit_events_text eff_defs split: sum.splits)
qed

lemma process_task_rpush_trace:
  assumes "dispatched env tid p"
  shows "snd (process_task_rpush env tid p) =
     [Log (ProcessingTask tid p), SessionSubscribe (Inr ()), SessionPrompt p]
     @ snd (emit_events RPushOut tid [] (events env))
     @ (case prompt_r env of
          Inl err \<Rightarrow> snd (task_catch (\<lambda>v. or_else v ''unknown'') RPushOut env tid err)
        | Inr u \<Rightarrow>
            [Log (TaskCompleted tid),
             RPushOut (resultPayload tid (response_text_spec (map fst (events env))))
               (publish_result_r env)]
            @ (case publish_result_r env of
                 Inl err \<Rightarrow> snd (task_catch (\<lambda>v. or_else v ''unknown'') RPushOut env tid err)
               | Inr u \<Rightarrow> []))
     @ Unsubscribe (unsubscribe_r env) #
       (case unsubscribe_r env of Inl e \<Rightarrow> [] | Inr u \<Rightarrow> [SetCurrentTaskId None])"
proof -
  have t: "template_ok (or_else tid ''unknown'')"
    using assms by (simp add: dispatched_iff template_ok_or_else)
  then have l: "log_template [or_else tid ''unknown''] l = (Inr (), [Log l])" for l
    by (simp add: log_template_def done_eff_def)
  show ?thesis
    by (simp add: process_task_rpush_def task_open_trace [OF assms] task_try_def Let_def l
        emit_events_text eff_defs split: sum.splits)
qed

lemma process_task_result_writes:
  assumes "dispatched env tid p"
  shows "result_writes (snd (process_task env messageId tid p)) =
     (case prompt_r env of
        Inl err \<Rightarrow>
          (case read_message err of
             Inl t \<Rightarrow> []
           | Inr m \<Rightarrow> [(errorPayload tid m, publish_error_r env)])
      | Inr u \<Rightarrow>
          (resultPayload tid (response_text_spec (map fst (events env))), publish_result_r env) #
          (case publish_result_r env of
             Inl err \<Rightarrow>
               (case read_message err of
                  Inl t \<Rightarrow> []
                | Inr m \<Rightarrow> [(errorPayload tid m, publish_error_r env)])
           | Inr u \<Rightarrow> []))"
proof -
  have t: "template_ok tid" using assms by (simp add: dispatched_iff)
  note w = task_catch_writes(1) [where shown = "\<lambda>v. v" and tid = tid, OF t]
  show ?thesis
    by (simp add: process_task_trace [OF assms] result_writes_append result_writes_Cons
        result_writes_Nil emit_events_no_result w resultPayload_def split: sum.splits)
qed

lemma process_task_rpush_result_writes:
  assumes "dispatched env tid p"
  shows "result_writes (snd (process_task_rpush env tid p)) =
     (case prompt_r env of
        Inl err \<Rightarrow>
          (case read_message err of
             Inl t \<Rightarrow> []
           | Inr m \<Rightarrow> [(errorPayload tid m, publish_error_r env)])
      | Inr u \<Rightarrow>
          (resultPayload tid (response_text_spec (map fst (events env))), publish_result_r env) #
          (case publish_result_r env of
             Inl err \<Rightarrow>
               (case read_message err of
                  Inl t \<Rightarrow> []
                | Inr m \<Rightarrow> [(errorPayload tid m, publish_error_r env)])
           | Inr u \<Rightarrow> []))"
proof -
  have t: "template_ok (or_else tid ''unknown'')"
    using assms by (simp add: dispatched_iff template_ok_or_else)
  note w = task_catch_writes(2) [where shown = "\<lambda>v. or_else v ''unknown''" and tid = tid, OF t]
  show ?thesis
    by (simp add: process_task_rpush_trace [OF assms] result_writes_append result_writes_Cons
        result_writes_Nil emit_events_no_result w resultPayload_def split: sum.splits)
qed

lemma dispatched_samples:
  "dispatched task_ok (Some (JStr ''t1'')) (JStr ''hello'')"
  "dispatched task_ok (Some (JStr ''t2'')) (JStr ''run tool'')"
  "dispatched task_publish_down (Some (JStr ''t1'')) (JStr ''hello'')"
  "dispatched task_aborted (Some (JStr ''t2'')) (JStr ''run tool'')"
  "dispatched task_failed (Some (JStr ''t2'')) (JStr ''run tool'')"
  "dispatched task_rejected_with_string (Some (JStr ''t2'')) (JStr ''run tool'')"
  by (simp_all add: dispatched_iff template_ok_simps task_ok_def task_publish_down_def
      task_aborted_def task_failed_def task_rejected_with_string_def)

subsection \<open>Acknowledgment and the terminal result\<close>




text \<open>A throwing \<^verbatim>\<open>unsubscribe()\<close> leaves the message unacknowledged and the slot set.\<close>

lemma unsubscribe_throws_no_ack:
  assumes "dispatched env tid p" and "unsubscribe_r env = Inl e"
  shows "filter is_xack (snd (process_task env messageId tid p)) = []"
    and "SetCurrentTaskId None \<notin> set (snd (process_task env messageId tid p))"
    and "fst (process_task env messageId tid p) = Inl e"
proof -
  have t: "template_ok tid" using assms by (simp add: dispatched_iff)
  note cx = task_catch_writes(3) [where shown = "\<lambda>v. v" and tid = tid, OF t]
  have tc: "SetCurrentTaskId None \<notin> set (snd (task_catch (\<lambda>v. v) XAddOut env tid err))" for err
    by (simp add: task_catch_eq [where shown = "\<lambda>v. v" and tid = tid, OF t] split: sum.splits)
  have ev: "SetCurrentTaskId None \<notin> set (snd (emit_events XAddOut tid acc es))" for acc es
    by (induction es arbitrary: acc)
       (auto simp add: Let_def subscriber_def publish_progress_def split: option.splits sum.splits)
  show "filter is_xack (snd (process_task env messageId tid p)) = []"
    by (simp add: process_task_trace [OF assms(1)] assms(2) emit_events_no_xack cx
        split: sum.splits)
  show "SetCurrentTaskId None \<notin> set (snd (process_task env messageId tid p))"
    by (simp add: process_task_trace [OF assms(1)] assms(2) tc ev split: sum.splits)
  show "fst (process_task env messageId tid p) = Inl e"
    using assms(2)
    by (simp add: process_task_def task_open_trace [OF assms(1)] eff_defs split: sum.splits)
qed


subsection \<open>Failed and aborted tasks\<close>




text \<open>A rejection with \<^verbatim>\<open>undefined\<close> or \<^verbatim>\<open>null\<close> makes the \<^verbatim>\<open>catch\<close> block throw.\<close>

lemma nullish_rejection_writes_nothing:
  assumes "dispatched env tid p" and "prompt_r env = Inl err" and "err = None \<or> err = Some JNull"
  shows "result_writes (snd (process_task env messageId tid p)) = []"
  using assms(2,3)
  by (auto simp add: process_task_result_writes [OF assms(1)] read_message_def)

text \<open>
  C10: for a failure that has a message string, the terminal record is a function of the
  task id and of that string alone: the fixed text when the message is \<^verbatim>\<open>Aborted\<close>, the
  message itself when it differs. Two failures with the same message give the same record,
  whatever else the thrown values hold, whatever the events, the outcomes of the writes, the
  prompt and the message of the queue; no control signal enters the computation. Stated
  for tasks that reach execution, for \<^verbatim>\<open>index.ts\<close> and for the list-based variants.
\<close>

theorem abort_classification_by_message:
  assumes "dispatched env tid p" and "dispatched env' tid p'"
    and "prompt_r env = Inl (Some v)" and "prompt_r env' = Inl (Some v')"
    and "get v ''message'' = Some (JStr m)" and "get v' ''message'' = Some (JStr m)"
  shows "map fst (result_writes (snd (process_task env messageId tid p))) =
           [\<lparr>resp_id = tid, status = ''error'', event = None, data = None, response = None,
             error = Some (JStr (if m = ''Aborted'' then ''Task aborted by user'' else m))\<rparr>]
       \<and> map fst (result_writes (snd (process_task_rpush env tid p))) =
           [\<lparr>resp_id = tid, status = ''error'', event = None, data = None, response = None,
             error = Some (JStr (if m = ''Aborted'' then ''Task aborted by user'' else m))\<rparr>]
       \<and> map fst (result_writes (snd (process_task env' messageId' tid p'))) =
           map fst (result_writes (snd (process_task env messageId tid p)))
       \<and> map fst (result_writes (snd (process_task_rpush env' tid p'))) =
           map fst (result_writes (snd (process_task_rpush env tid p)))"
proof -
  have n: "v \<noteq> JNull" "v' \<noteq> JNull" using assms(5,6) by auto
  show ?thesis
    using assms(3-6) n
    by (simp add: process_task_result_writes [OF assms(1)] process_task_result_writes [OF assms(2)]
        process_task_rpush_result_writes [OF assms(1)] process_task_rpush_result_writes [OF assms(2)]
        read_message_def errorPayload_def)
qed

theorem abort_classification_by_message_witness:
  "map fst (result_writes (snd (process_task task_aborted ''1-0'' (Some (JStr ''t2'')) (JStr ''run tool'')))) =
     [\<lparr>resp_id = Some (JStr ''t2''), status = ''error'', event = None, data = None,
       response = None, error = Some (JStr ''Task aborted by user'')\<rparr>]
   \<and> map fst (result_writes (snd (process_task
        (task_failed\<lparr>prompt_r := Inl (Some (JObj [(''message'', JStr ''Aborted'')]))\<rparr>)
        ''2-0'' (Some (JStr ''t2'')) (JStr ''hello'')))) =
     [\<lparr>resp_id = Some (JStr ''t2''), status = ''error'', event = None, data = None,
       response = None, error = Some (JStr ''Task aborted by user'')\<rparr>]"
proof -
  let ?env' = "task_failed\<lparr>prompt_r := Inl (Some (JObj [(''message'', JStr ''Aborted'')]))\<rparr>"
  have a: "prompt_r task_aborted =
      Inl (Some (JObj [(''name'', JStr ''Error''), (''message'', JStr ''Aborted'')]))"
    by (simp add: task_aborted_def error_object_def)
  have b: "prompt_r ?env' = Inl (Some (JObj [(''message'', JStr ''Aborted'')]))"
    by simp
  have d': "dispatched ?env' (Some (JStr ''t2'')) (JStr ''hello'')"
    by (simp add: dispatched_iff template_ok_simps task_failed_def)
  have m: "get (JObj [(''name'', JStr ''Error''), (''message'', JStr ''Aborted'')]) ''message'' =
      Some (JStr ''Aborted'')"
    "get (JObj [(''message'', JStr ''Aborted'')]) ''message'' = Some (JStr ''Aborted'')"
    by simp_all
  show ?thesis
    using abort_classification_by_message [OF dispatched_samples(4) d' a b m,
        of "''1-0''" "''2-0''"]
    by simp
qed

subsection \<open>The response text\<close>

text \<open>
  C5: when the prompt of a task that reached execution returns, the first terminal record
  written is the success record, and its response text is the ordered concatenation of the
  text blocks of the assistant message-end events of the task: \<open>response_text_spec\<close> of
  the events emitted. (A second record, the error record of the \<^verbatim>\<open>catch\<close> block,
  follows only when the write of the success record fails.)
\<close>

theorem response_text_is_concatenation:
  assumes "dispatched env tid p" and "prompt_r env = Inr ()"
  shows "result_writes (snd (process_task env messageId tid p)) =
           (\<lparr>resp_id = tid, status = ''success'', event = None, data = None,
             response = Some (response_text_spec (map fst (events env))), error = None\<rparr>,
            publish_result_r env) #
           (case publish_result_r env of
              Inl e \<Rightarrow>
                (case read_message e of
                   Inl t \<Rightarrow> []
                 | Inr m \<Rightarrow> [(errorPayload tid m, publish_error_r env)])
            | Inr u \<Rightarrow> [])"
  using assms(2) by (simp add: process_task_result_writes [OF assms(1)] resultPayload_def)

theorem response_text_is_concatenation_witness:
  "results_published (snd (process_task task_ok ''1-0'' (Some (JStr ''t2'')) (JStr ''run tool''))) =
     [\<lparr>resp_id = Some (JStr ''t2''), status = ''success'', event = None, data = None,
       response = Some ''on it. done'', error = None\<rparr>]"
proof -
  have ok: "prompt_r task_ok = Inr ()" by (simp add: task_ok_def)
  have rt: "response_text_spec (map fst (events task_ok)) = ''on it. done''"
    by (simp add: task_sample_defs response_text_spec_def assistant_message_end_def comp_def)
  show ?thesis
    using response_text_is_concatenation [OF dispatched_samples(2) ok, of "''1-0''"] rt
    by (simp add: results_published_def task_ok_def)
qed

subsection \<open>Progress records\<close>

text \<open>
  C6: what one event writes to the output queue. An assistant message start writes one
  \<^verbatim>\<open>llm_start\<close> record, an assistant message end one \<^verbatim>\<open>llm_end\<close> record, a tool
  execution start one \<^verbatim>\<open>tool_start\<close> record with the tool name and the arguments, a tool
  execution end one \<^verbatim>\<open>tool_end\<close> record with the tool name, the result and the error
  flag; a message event of another role writes nothing, and neither does an event of any
  other type.
\<close>

theorem progress_mapping:
  "(event_type ev = ''message_start'' \<and> role (event_message ev) = ''assistant'' \<longrightarrow>
      map fst (output_writes (snd (subscriber XAddOut tid acc (ev, r)))) =
        [\<lparr>resp_id = tid, status = ''progress'', event = Some ''llm_start'', data = None,
          response = None, error = None\<rparr>])
   \<and> (event_type ev = ''message_end'' \<and> role (event_message ev) = ''assistant'' \<longrightarrow>
      map fst (output_writes (snd (subscriber XAddOut tid acc (ev, r)))) =
        [\<lparr>resp_id = tid, status = ''progress'', event = Some ''llm_end'', data = None,
          response = None, error = None\<rparr>])
   \<and> (event_type ev = ''tool_execution_start'' \<longrightarrow>
      map fst (output_writes (snd (subscriber XAddOut tid acc (ev, r)))) =
        [\<lparr>resp_id = tid, status = ''progress'', event = Some ''tool_start'',
          data = Some (JObj [(''tool'', JStr (toolName ev)), (''args'', args ev)]),
          response = None, error = None\<rparr>])
   \<and> (event_type ev = ''tool_execution_end'' \<longrightarrow>
      map fst (output_writes (snd (subscriber XAddOut tid acc (ev, r)))) =
        [\<lparr>resp_id = tid, status = ''progress'', event = Some ''tool_end'',
          data = Some (JObj [(''tool'', JStr (toolName ev)), (''result'', result ev),
                             (''isError'', JBool (isError ev))]),
          response = None, error = None\<rparr>])
   \<and> ((event_type ev = ''message_start'' \<or> event_type ev = ''message_end'')
        \<and> role (event_message ev) \<noteq> ''assistant'' \<longrightarrow>
      output_writes (snd (subscriber XAddOut tid acc (ev, r))) = [])
   \<and> (event_type ev \<noteq> ''message_start'' \<and> event_type ev \<noteq> ''message_end''
        \<and> event_type ev \<noteq> ''tool_execution_start'' \<and> event_type ev \<noteq> ''tool_execution_end'' \<longrightarrow>
      output_writes (snd (subscriber XAddOut tid acc (ev, r))) = [])"
  by (simp add: subscriber_def publish_progress_def progress_of_def progress_record_def
      output_writes_def split: sum.splits)

theorem progress_mapping_witness:
  "map fst (output_writes (snd (emit_events XAddOut (Some (JStr ''t2'')) []
       (map (\<lambda>ev. (ev, Inr ())) sample_events)))) =
     [progress_record (Some (JStr ''t2'')) ''llm_start'' None,
      progress_record (Some (JStr ''t2'')) ''llm_end'' None,
      progress_record (Some (JStr ''t2'')) ''tool_start''
        (Some (JObj [(''tool'', JStr ''x''), (''args'', JObj [(''path'', JStr ''a'')])])),
      progress_record (Some (JStr ''t2'')) ''tool_end''
        (Some (JObj [(''tool'', JStr ''x''), (''result'', JStr ''ok''), (''isError'', JBool False)])),
      progress_record (Some (JStr ''t2'')) ''llm_start'' None,
      progress_record (Some (JStr ''t2'')) ''llm_end'' None]"
proof -
  let ?w = "\<lambda>acc ev. map fst (output_writes (snd (subscriber XAddOut (Some (JStr ''t2'')) acc
               (ev, Inr ()))))"
  have w: "output_writes (snd (emit_events XAddOut tid acc (e # es))) =
      output_writes (snd (subscriber XAddOut tid acc e)) @
      output_writes (snd (emit_events XAddOut tid (fst (subscriber XAddOut tid acc e)) es))"
    for tid acc e es
    by (simp add: Let_def output_writes_append)
  have n: "output_writes (snd (emit_events XAddOut tid acc [])) = []" for tid acc
    by (simp add: output_writes_def)
  note pm = progress_mapping [where tid = "Some (JStr ''t2'')" and r = "Inr ()"]
  have e1: "?w acc (message_event ''message_start'' ''user'' [''run tool'']) = []" for acc
    using pm [of "message_event ''message_start'' ''user'' [''run tool'']" acc]
    by (simp add: message_event_def)
  have e2: "?w acc (message_event ''message_end'' ''user'' [''run tool'']) = []" for acc
    using pm [of "message_event ''message_end'' ''user'' [''run tool'']" acc]
    by (simp add: message_event_def)
  have e3: "?w acc (message_event ''message_start'' ''assistant'' []) =
      [progress_record (Some (JStr ''t2'')) ''llm_start'' None]" for acc
    using pm [of "message_event ''message_start'' ''assistant'' []" acc]
    by (simp add: message_event_def progress_record_def)
  have e4: "?w acc \<lparr>event_type = ''message_end'',
       event_message = \<lparr>role = ''assistant'',
         content = [\<lparr>block_type = ''thinking'', block_text = ''hm''\<rparr>,
                    \<lparr>block_type = ''text'', block_text = ''on it. ''\<rparr>]\<rparr>,
       toolName = [], args = JNull, result = JNull, isError = False\<rparr> =
      [progress_record (Some (JStr ''t2'')) ''llm_end'' None]" for acc
    using pm [of "\<lparr>event_type = ''message_end'',
       event_message = \<lparr>role = ''assistant'',
         content = [\<lparr>block_type = ''thinking'', block_text = ''hm''\<rparr>,
                    \<lparr>block_type = ''text'', block_text = ''on it. ''\<rparr>]\<rparr>,
       toolName = [], args = JNull, result = JNull, isError = False\<rparr>" acc]
    by (simp add: progress_record_def)
  have e5: "?w acc (tool_event ''tool_execution_start'' ''x'' (JObj [(''path'', JStr ''a'')]) JNull False) =
      [progress_record (Some (JStr ''t2'')) ''tool_start''
        (Some (JObj [(''tool'', JStr ''x''), (''args'', JObj [(''path'', JStr ''a'')])]))]" for acc
    using pm [of "tool_event ''tool_execution_start'' ''x'' (JObj [(''path'', JStr ''a'')]) JNull False" acc]
    by (simp add: tool_event_def progress_record_def)
  have e6: "?w acc (tool_event ''tool_execution_end'' ''x'' JNull (JStr ''ok'') False) =
      [progress_record (Some (JStr ''t2'')) ''tool_end''
        (Some (JObj [(''tool'', JStr ''x''), (''result'', JStr ''ok''), (''isError'', JBool False)]))]"
    for acc
    using pm [of "tool_event ''tool_execution_end'' ''x'' JNull (JStr ''ok'') False" acc]
    by (simp add: tool_event_def progress_record_def)
  have e7: "?w acc (message_event ''message_end'' ''toolResult'' [''ok'']) = []" for acc
    using pm [of "message_event ''message_end'' ''toolResult'' [''ok'']" acc]
    by (simp add: message_event_def)
  have e9: "?w acc (message_event ''message_update'' ''assistant'' [''on it'']) = []" for acc
    using pm [of "message_event ''message_update'' ''assistant'' [''on it'']" acc]
    by (simp add: message_event_def)
  have e8: "?w acc (message_event ''message_end'' ''assistant'' [''done'']) =
      [progress_record (Some (JStr ''t2'')) ''llm_end'' None]" for acc
    using pm [of "message_event ''message_end'' ''assistant'' [''done'']" acc]
    by (simp add: message_event_def progress_record_def)
  show ?thesis
    unfolding sample_events_def
    by (simp only: list.map w n map_append append_Nil2 e1 e2 e3 e4 e5 e6 e7 e8 e9 append.simps)
qed



subsection \<open>Messages that are not tasks\<close>

text \<open>
  The scan, on any field list: a list of name and value pairs, with at most one more
  element. It returns the value of the first pair named \<^verbatim>\<open>payload\<close>.
\<close>

lemma find_payload_pairs:
  assumes "length tail_fld \<le> 1"
  shows "find_payload (concat (map (\<lambda>kv. [fst kv, snd kv]) pairs) @ tail_fld) =
     (case map_of pairs ''payload'' of
        None \<Rightarrow> (if tail_fld = [''payload''] then None else Some [])
      | Some v \<Rightarrow> Some v)"
proof (induction pairs)
  case Nil
  from assms show ?case by (cases tail_fld) auto
next
  case (Cons kv pairs)
  then show ?case by (cases kv) simp
qed

lemma find_payload_absent:
  "''payload'' \<notin> set flds \<Longrightarrow> find_payload flds = Some []"
  by (induction flds rule: find_payload.induct) auto

lemma loop_iteration_returns: "fst (loop_iteration JSON_parse env) = Inr ()"
  by (simp add: loop_iteration_def eff_defs split: sum.splits)

lemma consume_Cons:
  "consume JSON_parse (env # envs) =
     (fst (consume JSON_parse envs),
      snd (loop_iteration JSON_parse env) @ snd (consume JSON_parse envs))"
  by (simp add: seq_def loop_iteration_returns)

lemma loop_with_simps:
  "xreadgroup_r (loop_with flds env) = Inr (Some ((''agent_in'', (''1-0'', flds) # []) # []))"
  "xack_r (loop_with flds env) = xack_r env"
  by (simp_all add: loop_with_def task_env.extend_def)

text \<open>
  C8, as stated: a message whose payload field is present but is not JSON is skipped without
  acknowledgment. The test \<^verbatim>\<open>!rawMessage\<close> takes a payload field with the empty value
  as no payload: the empty text is not JSON, and the message is acknowledged.
\<close>

theorem empty_payload_is_acknowledged:
  "JSON_parse_sample [] = None
   \<and> snd (loop_iteration JSON_parse_sample (loop_with [''payload'', []] task_ok)) =
       [XReadGroup, Log (NoPayloadFields ''1-0''), XAck ''1-0'' (Inr ())]"
  by (simp add: loop_iteration_def loop_try_def loop_with_simps eff_defs sample_defs task_ok_def)

text \<open>
  C8, amended: a message with no field named \<^verbatim>\<open>payload\<close>, or whose first such field has
  the empty value, is acknowledged at once and skipped, and nothing is written to the
  output queue. A message whose first \<^verbatim>\<open>payload\<close> field has a value that is not empty
  and not JSON is logged and skipped: no acknowledgment, nothing written to the output
  queue. In both cases the turn of the loop returns normally and the loop goes on with the
  next message.
\<close>

theorem unusable_message_skipped:
  assumes "xreadgroup_r env = Inr (Some ((stream, (messageId, flds) # msgs) # others))"
    and "flds = concat (map (\<lambda>kv. [fst kv, snd kv]) pairs) @ tail_fld" and "length tail_fld \<le> 1"
  shows "(map_of pairs ''payload'' = None \<or> map_of pairs ''payload'' = Some [] \<longrightarrow>
            snd (loop_iteration JSON_parse env) =
              XReadGroup # Log (NoPayloadFields messageId) # XAck messageId (xack_r env) #
                (case xack_r env of
                   Inl e \<Rightarrow> [LogError (WorkerLoopError e), Sleep 5000]
                 | Inr u \<Rightarrow> [])
            \<and> output_writes (snd (loop_iteration JSON_parse env)) = [])
       \<and> (\<forall>rawMessage. map_of pairs ''payload'' = Some rawMessage \<and> rawMessage \<noteq> []
              \<and> JSON_parse rawMessage = None \<longrightarrow>
            loop_try JSON_parse env =
              (Inr (), [XReadGroup, Log (ReceivedMessage messageId rawMessage),
                        LogError (MessageParseFailed rawMessage)])
            \<and> snd (loop_iteration JSON_parse env) = snd (loop_try JSON_parse env)
            \<and> filter is_xack (snd (loop_iteration JSON_parse env)) = []
            \<and> output_writes (snd (loop_iteration JSON_parse env)) = [])
       \<and> fst (loop_iteration JSON_parse env) = Inr ()
       \<and> consume JSON_parse (env # envs) =
           (fst (consume JSON_parse envs),
            snd (loop_iteration JSON_parse env) @ snd (consume JSON_parse envs))"
proof (intro conjI impI allI)
  note fp = find_payload_pairs [OF assms(3), of pairs, folded assms(2)]
  assume "map_of pairs ''payload'' = None \<or> map_of pairs ''payload'' = Some []"
  then have "find_payload flds = None \<or> find_payload flds = Some []"
    by (auto simp add: fp)
  then have tr: "loop_try JSON_parse env =
      (xack_r env, [XReadGroup, Log (NoPayloadFields messageId), XAck messageId (xack_r env)])"
    using assms(1) by (auto simp add: loop_try_def eff_defs)
  show it: "snd (loop_iteration JSON_parse env) =
              XReadGroup # Log (NoPayloadFields messageId) # XAck messageId (xack_r env) #
                (case xack_r env of
                   Inl e \<Rightarrow> [LogError (WorkerLoopError e), Sleep 5000]
                 | Inr u \<Rightarrow> [])"
    by (simp add: loop_iteration_def tr eff_defs split: sum.splits)
  show "output_writes (snd (loop_iteration JSON_parse env)) = []"
    by (simp add: it output_writes_def split: sum.splits)
next
  fix rawMessage
  note fp = find_payload_pairs [OF assms(3), of pairs, folded assms(2)]
  assume h: "map_of pairs ''payload'' = Some rawMessage \<and> rawMessage \<noteq> []
      \<and> JSON_parse rawMessage = None"
  then have f: "find_payload flds = Some rawMessage" by (simp add: fp)
  show tr: "loop_try JSON_parse env =
      (Inr (), [XReadGroup, Log (ReceivedMessage messageId rawMessage),
                LogError (MessageParseFailed rawMessage)])"
    using assms(1) h f by (simp add: loop_try_def eff_defs)
  show it: "snd (loop_iteration JSON_parse env) = snd (loop_try JSON_parse env)"
    by (simp add: loop_iteration_def tr eff_defs)
  show "filter is_xack (snd (loop_iteration JSON_parse env)) = []"
    by (simp add: it tr)
  show "output_writes (snd (loop_iteration JSON_parse env)) = []"
    by (simp add: it tr output_writes_def)
next
  show "fst (loop_iteration JSON_parse env) = Inr ()"
    by (rule loop_iteration_returns)
next
  show "consume JSON_parse (env # envs) =
           (fst (consume JSON_parse envs),
            snd (loop_iteration JSON_parse env) @ snd (consume JSON_parse envs))"
    by (rule consume_Cons)
qed

theorem unusable_message_skipped_witness:
  "snd (loop_iteration JSON_parse_sample (loop_with [''source'', ''x'', ''data'', ''y''] task_ok)) =
     [XReadGroup, Log (NoPayloadFields ''1-0''), XAck ''1-0'' (Inr ())]
   \<and> snd (loop_iteration JSON_parse_sample
        (loop_with [''source'', ''x'', ''payload'', ''not-json''] task_ok)) =
     [XReadGroup, Log (ReceivedMessage ''1-0'' ''not-json''),
      LogError (MessageParseFailed ''not-json'')]
   \<and> snd (consume JSON_parse_sample
        [loop_with [''source'', ''x'', ''payload'', ''not-json''] task_ok,
         loop_with [''source'', ''x'', ''data'', ''y''] task_ok]) =
     [XReadGroup, Log (ReceivedMessage ''1-0'' ''not-json''),
      LogError (MessageParseFailed ''not-json''),
      XReadGroup, Log (NoPayloadFields ''1-0''), XAck ''1-0'' (Inr ())]"
proof -
  let ?none = "[(''source'', ''x''), (''data'', ''y'')]"
  let ?bad = "[(''source'', ''x''), (''payload'', ''not-json'')]"
  have x: "xack_r (loop_with flds task_ok) = Inr ()" for flds
    by (simp add: loop_with_simps task_ok_def)
  have nj: "JSON_parse_sample ''not-json'' = None"
    by (simp add: sample_defs)
  have f1: "[''source'', ''x'', ''data'', ''y''] = concat (map (\<lambda>kv. [fst kv, snd kv]) ?none) @ []"
    by simp
  have f2: "[''source'', ''x'', ''payload'', ''not-json''] =
      concat (map (\<lambda>kv. [fst kv, snd kv]) ?bad) @ []"
    by simp
  have l: "length ([] :: string list) \<le> 1" by simp
  note u1 = unusable_message_skipped [where JSON_parse = JSON_parse_sample
      and env = "loop_with [''source'', ''x'', ''data'', ''y''] task_ok",
      OF loop_with_simps(1) f1 l]
  note u2 = unusable_message_skipped [where JSON_parse = JSON_parse_sample
      and env = "loop_with [''source'', ''x'', ''payload'', ''not-json''] task_ok",
      OF loop_with_simps(1) f2 l]
  have a: "snd (loop_iteration JSON_parse_sample
        (loop_with [''source'', ''x'', ''data'', ''y''] task_ok)) =
     [XReadGroup, Log (NoPayloadFields ''1-0''), XAck ''1-0'' (Inr ())]"
    using u1 [of "[]"] by (simp add: x)
  have b: "snd (loop_iteration JSON_parse_sample
        (loop_with [''source'', ''x'', ''payload'', ''not-json''] task_ok)) =
     [XReadGroup, Log (ReceivedMessage ''1-0'' ''not-json''),
      LogError (MessageParseFailed ''not-json'')]"
    using u2 [of "[]"] nj by simp
  have c: "snd (consume JSON_parse_sample
        [loop_with [''source'', ''x'', ''payload'', ''not-json''] task_ok,
         loop_with [''source'', ''x'', ''data'', ''y''] task_ok]) =
      snd (loop_iteration JSON_parse_sample
        (loop_with [''source'', ''x'', ''payload'', ''not-json''] task_ok)) @
      snd (loop_iteration JSON_parse_sample
        (loop_with [''source'', ''x'', ''data'', ''y''] task_ok))"
    using u2 [of "[loop_with [''source'', ''x'', ''data'', ''y''] task_ok]"] u1 [of "[]"]
    by (simp add: done_eff_def)
  show ?thesis using a b c by simp
qed


subsection \<open>The helpers, and a task id that does not convert\<close>

lemma truthy_iff:
  "truthy v \<longleftrightarrow>
     v \<noteq> None \<and> v \<noteq> Some JNull \<and> v \<noteq> Some (JBool False) \<and> v \<noteq> Some (JNum 0)
     \<and> v \<noteq> Some (JStr [])"
proof (cases v)
  case None
  then show ?thesis by simp
next
  case (Some j)
  then show ?thesis by (cases j) auto
qed

lemma get_iff: "get v k = Some x \<longleftrightarrow> (\<exists>fs. v = JObj fs \<and> map_of fs k = Some x)"
  by (cases v) simp_all

lemma stringifiable_iff:
  "stringifiable v \<longleftrightarrow>
     (\<forall>xs. v = JArr xs \<longrightarrow> list_all stringifiable xs)
     \<and> (\<forall>fs. v = JObj fs \<longrightarrow> ''toString'' \<notin> fst ` set fs)"
  by (cases v) (simp_all add: list_all_iff map_of_eq_None_iff)

lemma stringifiable_samples:
  "\<not> stringifiable unprintable"
  "\<not> stringifiable (JArr [JNum 1, unprintable])"
  "stringifiable (JArr [JNum 1, JNull, JObj [(''a'', unprintable)]])"
  by (simp_all add: unprintable_def)

lemma read_message_iff:
  "read_message err = Inr m \<longleftrightarrow> (\<exists>v. err = Some v \<and> v \<noteq> JNull \<and> get v ''message'' = m)"
  "read_message err = Inl t \<longleftrightarrow> (err = None \<or> err = Some JNull) \<and> t = TypeError"
  by (auto simp add: read_message_def split: option.splits)

lemma or_else_samples:
  "or_else None ''none'' = Some (JStr ''none'')"
  "or_else (Some (JStr [])) ''none'' = Some (JStr ''none'')"
  "or_else (Some (JStr ''t1'')) ''none'' = Some (JStr ''t1'')"
  "or_else (Some unprintable) ''none'' = Some unprintable"
  by (simp_all add: or_else_def unprintable_def)

text \<open>The branches of the handlers and of the loop that the theorems above leave open.\<close>

lemma control_try_other:
  "JSON_parse rawSignal = None \<Longrightarrow>
     on_message JSON_parse env currentTaskId rawSignal =
       (Inr (), [LogError (ControlParseFailed rawSignal)])"
  "JSON_parse rawSignal = Some JNull \<Longrightarrow>
     on_message JSON_parse env currentTaskId rawSignal =
       (Inr (), [LogError (ControlParseFailed rawSignal)])"
  "JSON_parse rawSignal = Some signal \<Longrightarrow> signal \<noteq> JNull \<Longrightarrow>
   get signal ''command'' \<noteq> Some (JStr ''stop'') \<Longrightarrow>
   get signal ''command'' \<noteq> Some (JStr ''steer'') \<Longrightarrow>
   get signal ''command'' \<noteq> Some (JStr ''reset'') \<Longrightarrow>
     on_message JSON_parse env currentTaskId rawSignal = (Inr (), [])"
  by (simp_all add: handler_defs eff_defs)

lemma plain_stop_literal:
  "JSON_parse rawSignal = None \<Longrightarrow>
     on_message_plain JSON_parse env currentTaskId rawSignal =
       (if rawSignal = ''STOP'' then (abort_r env, [Log PlainStop, AgentAbort (abort_r env)])
        else (Inr (), []))"
  by (simp add: handler_defs eff_defs)

lemma loop_try_no_message:
  "xreadgroup_r env = Inl e \<Longrightarrow>
     loop_iteration JSON_parse env = (Inr (), [XReadGroup, LogError (WorkerLoopError e), Sleep 5000])"
  "xreadgroup_r env = Inr None \<Longrightarrow> loop_iteration JSON_parse env = (Inr (), [XReadGroup])"
  "xreadgroup_r env = Inr (Some []) \<Longrightarrow> loop_iteration JSON_parse env = (Inr (), [XReadGroup])"
  "xreadgroup_r env = Inr (Some ((stream, []) # others)) \<Longrightarrow>
     loop_iteration JSON_parse env = (Inr (), [XReadGroup])"
  by (simp_all add: loop_iteration_def loop_try_def eff_defs)

lemma loop_try_parsed:
  assumes "xreadgroup_r env = Inr (Some ((stream, (messageId, flds) # msgs) # others))"
    and "find_payload flds = Some rawMessage" and "rawMessage \<noteq> []"
    and "JSON_parse rawMessage = Some payload"
  shows "payload = JNull \<Longrightarrow>
           loop_try JSON_parse env =
             (Inl TypeError, [XReadGroup, Log (ReceivedMessage messageId rawMessage)])"
    and "payload \<noteq> JNull \<Longrightarrow> \<not> truthy (get payload ''prompt'') \<Longrightarrow>
           loop_try JSON_parse env =
             (Inr (), [XReadGroup, Log (ReceivedMessage messageId rawMessage),
                       SetCurrentTaskId (get payload ''id''),
                       LogError (MissingPrompt payload), SetCurrentTaskId None])"
    and "payload \<noteq> JNull \<Longrightarrow> get payload ''prompt'' = Some p \<Longrightarrow> truthy (Some p) \<Longrightarrow>
           loop_try JSON_parse env =
             (fst (process_task (task_env.truncate env) messageId (get payload ''id'') p),
              [XReadGroup, Log (ReceivedMessage messageId rawMessage),
               SetCurrentTaskId (get payload ''id'')]
              @ snd (process_task (task_env.truncate env) messageId (get payload ''id'') p))"
  using assms by (auto simp add: loop_try_def eff_defs split: option.splits)

lemma dispatched_iff_prompt_called:
  "dispatched env tid p \<longleftrightarrow> SessionPrompt p \<in> set (snd (process_task env messageId tid p))"
proof
  assume "dispatched env tid p"
  then show "SessionPrompt p \<in> set (snd (process_task env messageId tid p))"
    by (simp add: process_task_trace)
next
  assume "SessionPrompt p \<in> set (snd (process_task env messageId tid p))"
  then show "dispatched env tid p"
    using not_dispatched [of env tid p messageId] by blast
qed

text \<open>
  A task whose id does not convert to a string: the log of the task throws before the
  \<^verbatim>\<open>try\<close>, the outer \<^verbatim>\<open>catch\<close> logs the error, and \<^verbatim>\<open>currentTaskId\<close> keeps the id.
\<close>

lemma unprintable_id_leaves_slot_set:
  "loop_iteration JSON_parse_sample (loop_with [''payload'', raw_task_unprintable] task_ok) =
     (Inr (), [XReadGroup, Log (ReceivedMessage ''1-0'' raw_task_unprintable),
               SetCurrentTaskId (Some unprintable),
               LogError (WorkerLoopError ConvertError), Sleep 5000])"
proof -
  have p: "JSON_parse_sample raw_task_unprintable =
      Some (JObj [(''id'', JObj [(''toString'', JNull)]), (''prompt'', JStr ''x'')])"
    by (simp add: sample_defs)
  have r: "raw_task_unprintable \<noteq> []" by (simp add: raw_task_unprintable_def)
  have nd: "\<not> dispatched env (Some unprintable) p" for env p
    by (simp add: dispatched_iff template_ok_simps unprintable_def)
  have o: "task_open [] env (Some unprintable) p = (Inl ConvertError, [])" for env p
    by (simp add: task_open_def log_template_def or_else_def template_ok_simps unprintable_def
        eff_defs)
  show ?thesis
    using not_dispatched [OF nd]
    by (simp add: loop_iteration_def loop_try_def loop_with_simps p r o eff_defs
        unprintable_def [symmetric])
qed

end
